theory Spec2Isabelle
  imports Main "HOL-Library.AList"
begin

section \<open>JavaScript values\<close>

text \<open>
  The server is dynamically typed: documents read from disk, HTTP bodies and socket
  messages are arbitrary JSON values, and the code coerces them with \<open>Number(...)\<close>,
  \<open>String(...)\<close>, \<open>||\<close>, \<open>??\<close> and property access. The embedding keeps
  that: a value is a \<open>jsval\<close>, and each coercion is a function on it.

  A string is the sequence of the bytes of its UTF-8 encoding. A number is \<open>NaN\<close>, an
  infinity, an integer, or a finite number that is not an integer; the last kind is
  identified by the decimal text that \<open>String\<close> gives it. Finite numbers are exact: a
  numeral is not rounded to the 53 bits of a double, so integers are unbounded, and 0 and
  -0 are one number (the program never tells them apart).
  An object is an association list of its own properties, in insertion order, looked up
  with \<open>map_of\<close> and written with \<open>AList.update\<close>.
\<close>

datatype error = TypeError | SyntaxError | IOError | DriverError

subsection \<open>Decimal numerals\<close>

definition digit_char :: "nat \<Rightarrow> char" where
  "digit_char d = ''0123456789'' ! d"

definition is_digit :: "char \<Rightarrow> bool" where
  "is_digit c = (c \<in> set ''0123456789'')"

definition digit_val :: "char \<Rightarrow> nat" where
  "digit_val c = of_char c - 48"

fun show_nat :: "nat \<Rightarrow> string" where
  "show_nat n = (if n < 10 then [digit_char n] else show_nat (n div 10) @ [digit_char (n mod 10)])"

declare show_nat.simps [simp del]

definition read_nat :: "string \<Rightarrow> nat" where
  "read_nat ds = foldl (\<lambda>a c. 10 * a + digit_val c) 0 ds"

text \<open>The digits of the binary, octal and hexadecimal numerals.\<close>

definition radix_digit :: "char \<Rightarrow> nat option" where
  "radix_digit c =
     map_of
       [(CHR ''0'', 0), (CHR ''1'', 1), (CHR ''2'', 2), (CHR ''3'', 3), (CHR ''4'', 4), (CHR ''5'', 5),
        (CHR ''6'', 6), (CHR ''7'', 7), (CHR ''8'', 8), (CHR ''9'', 9),
        (CHR ''a'', 10), (CHR ''b'', 11), (CHR ''c'', 12), (CHR ''d'', 13), (CHR ''e'', 14), (CHR ''f'', 15),
        (CHR ''A'', 10), (CHR ''B'', 11), (CHR ''C'', 12), (CHR ''D'', 13), (CHR ''E'', 14), (CHR ''F'', 15)] c"

definition read_radix :: "nat \<Rightarrow> string \<Rightarrow> nat option" where
  "read_radix b ds =
     (if ds \<noteq> [] \<and> list_all (\<lambda>c. case radix_digit c of Some d \<Rightarrow> d < b | None \<Rightarrow> False) ds
      then Some (foldl (\<lambda>a c. b * a + the (radix_digit c)) 0 ds)
      else None)"

subsection \<open>Numbers\<close>

text \<open>
  The text that \<open>String\<close> gives a finite number that is not an integer, after its sign:
  either positional, \<open>12.5\<close> or \<open>0.00125\<close>, with an integer part without leading zeros
  and a fraction that does not end in 0; or, below \<open>0.000001\<close>, in exponent notation,
  \<open>1.25e-7\<close>.
\<close>

definition is_natural :: "string \<Rightarrow> bool" where
  "is_natural i = (i \<noteq> [] \<and> list_all is_digit i \<and> (i = ''0'' \<or> hd i \<noteq> CHR ''0''))"

definition is_fraction :: "string \<Rightarrow> bool" where
  "is_fraction f = (f \<noteq> [] \<and> list_all is_digit f \<and> last f \<noteq> CHR ''0'')"

definition is_positional :: "string \<Rightarrow> bool" where
  "is_positional t =
     (let i = takeWhile is_digit t; r = dropWhile is_digit t in
      is_natural i \<and> r \<noteq> [] \<and> hd r = CHR ''.'' \<and> is_fraction (tl r) \<and>
      \<not> (i = ''0'' \<and> take 6 (tl r) = ''000000''))"

definition is_mantissa :: "string \<Rightarrow> bool" where
  "is_mantissa m =
     (m \<noteq> [] \<and> is_digit (hd m) \<and> hd m \<noteq> CHR ''0'' \<and>
      (tl m = [] \<or> (hd (tl m) = CHR ''.'' \<and> is_fraction (tl (tl m)))))"

definition is_scientific :: "string \<Rightarrow> bool" where
  "is_scientific t =
     (let m = takeWhile (\<lambda>c. c \<noteq> CHR ''e'') t; r = dropWhile (\<lambda>c. c \<noteq> CHR ''e'') t in
      is_mantissa m \<and> take 2 r = ''e-'' \<and> is_natural (drop 2 r) \<and> 7 \<le> read_nat (drop 2 r))"

definition is_dectext :: "string \<Rightarrow> bool" where
  "is_dectext t =
     (let u = (if t \<noteq> [] \<and> hd t = CHR ''-'' then tl t else t) in is_positional u \<or> is_scientific u)"

typedef dectext = "{t. is_dectext t}"
  by (rule exI[of _ "''0.5''"])
     (simp add: is_dectext_def is_positional_def is_natural_def is_fraction_def is_digit_def)

text \<open>\<open>Inf True\<close> is \<open>-Infinity\<close>.\<close>

datatype jsnum = NaN | Fin int | Inf bool | Dec dectext

datatype jsval =
    Undefined
  | Null
  | Bool bool
  | Num jsnum
  | Str string
  | Arr "jsval list"
  | Obj "(string \<times> jsval) list"

text \<open>
  \<open>String(n)\<close> for a number (Number::toString of ECMA-262). The digits \<open>ds\<close> of an
  integer of at most 21 digits are printed as they are; a longer one is printed in exponent
  notation from its digits without the trailing zeros: \<open>1.5e+21\<close>.
\<close>

definition significant :: "string \<Rightarrow> string" where
  "significant ds = rev (dropWhile (\<lambda>c. c = CHR ''0'') (rev ds))"

definition mantissa :: "string \<Rightarrow> string" where
  "mantissa ds = (if length ds = 1 then ds else hd ds # ''.'' @ tl ds)"

definition scientific :: "string \<Rightarrow> string \<Rightarrow> string" where
  "scientific ds ex = mantissa ds @ ex"

definition magnitude :: "nat \<Rightarrow> string" where
  "magnitude m =
     (if length (show_nat m) \<le> 21 then show_nat m
      else scientific (significant (show_nat m)) (''e+'' @ show_nat (length (show_nat m) - 1)))"

fun num_to_string :: "jsnum \<Rightarrow> string" where
  "num_to_string NaN = ''NaN''"
| "num_to_string (Fin n) = (if n < 0 then ''-'' else []) @ magnitude (nat \<bar>n\<bar>)"
| "num_to_string (Inf neg) = (if neg then ''-Infinity'' else ''Infinity'')"
| "num_to_string (Dec d) = Rep_dectext d"

subsection \<open>Strings: trim and case mapping\<close>

text \<open>
  The white space that \<open>trim\<close> removes, and that may surround a numeral: the code points
  WhiteSpace and LineTerminator of ECMA-262, in UTF-8. These are tab, line feed, vertical tab,
  form feed, carriage return and space; U+00A0; U+1680; U+2000 to U+200A; U+2028, U+2029
  and U+202F; U+205F; U+3000; U+FEFF.
\<close>

definition white_space :: "string list" where
  "white_space =
     [[CHR 0x09], [CHR 0x0A], [CHR 0x0B], [CHR 0x0C], [CHR 0x0D], [CHR 0x20],
      [CHR 0xC2, CHR 0xA0],
      [CHR 0xE1, CHR 0x9A, CHR 0x80],
      [CHR 0xE2, CHR 0x80, CHR 0x80], [CHR 0xE2, CHR 0x80, CHR 0x81], [CHR 0xE2, CHR 0x80, CHR 0x82],
      [CHR 0xE2, CHR 0x80, CHR 0x83], [CHR 0xE2, CHR 0x80, CHR 0x84], [CHR 0xE2, CHR 0x80, CHR 0x85],
      [CHR 0xE2, CHR 0x80, CHR 0x86], [CHR 0xE2, CHR 0x80, CHR 0x87], [CHR 0xE2, CHR 0x80, CHR 0x88],
      [CHR 0xE2, CHR 0x80, CHR 0x89], [CHR 0xE2, CHR 0x80, CHR 0x8A],
      [CHR 0xE2, CHR 0x80, CHR 0xA8], [CHR 0xE2, CHR 0x80, CHR 0xA9], [CHR 0xE2, CHR 0x80, CHR 0xAF],
      [CHR 0xE2, CHR 0x81, CHR 0x9F],
      [CHR 0xE3, CHR 0x80, CHR 0x80],
      [CHR 0xEF, CHR 0xBB, CHR 0xBF]]"

text \<open>Removing from the front of \<open>s\<close> every leading occurrence of a word of \<open>ws\<close>.\<close>

function strip :: "string list \<Rightarrow> string \<Rightarrow> string" where
  "strip ws s =
     (case find (\<lambda>w. w \<noteq> [] \<and> take (length w) s = w) ws of
        None \<Rightarrow> s
      | Some w \<Rightarrow> strip ws (drop (length w) s))"
  by pat_completeness auto

termination
proof (relation "measure (\<lambda>(ws, s). length s)")
  show "wf (measure (\<lambda>(ws, s). length s))" by simp
next
  fix ws :: "string list" and s w :: string
  assume "find (\<lambda>w. w \<noteq> [] \<and> take (length w) s = w) ws = Some w"
  then have w: "w \<noteq> []" "take (length w) s = w" by (auto simp: find_Some_iff)
  from w(2) have "length w \<le> length s" by (metis length_take min.cobounded1)
  with w(1) show "((ws, drop (length w) s), (ws, s)) \<in> measure (\<lambda>(ws, s). length s)" by (cases w) auto
qed

declare strip.simps [simp del]

definition trim :: "string \<Rightarrow> string" where
  "trim s = rev (strip (map rev white_space) (rev (strip white_space s)))"

text \<open>
  Case mapping of the ASCII letters; other bytes are left as they are. The program only
  compares the result with \<open>ON\<close>, \<open>1\<close> and \<open>in\<close>, and no character outside ASCII is
  mapped to \<open>O\<close>, \<open>N\<close>, \<open>i\<close> or \<open>n\<close> alone.
\<close>

definition upper_char :: "char \<Rightarrow> char" where
  "upper_char c =
     (case map_of (zip ''abcdefghijklmnopqrstuvwxyz'' ''ABCDEFGHIJKLMNOPQRSTUVWXYZ'') c of
        Some u \<Rightarrow> u | None \<Rightarrow> c)"

definition lower_char :: "char \<Rightarrow> char" where
  "lower_char c =
     (case map_of (zip ''ABCDEFGHIJKLMNOPQRSTUVWXYZ'' ''abcdefghijklmnopqrstuvwxyz'') c of
        Some l \<Rightarrow> l | None \<Rightarrow> c)"

definition toUpperCase :: "string \<Rightarrow> string" where
  "toUpperCase s = map upper_char s"

definition toLowerCase :: "string \<Rightarrow> string" where
  "toLowerCase s = map lower_char s"

subsection \<open>Coercions\<close>

text \<open>
  \<open>Number(s)\<close> for a string (StringToNumber of ECMA-262). Surrounding white space is
  dropped and the empty string is 0. A numeral is \<open>0x\<close>, \<open>0o\<close> or \<open>0b\<close> with digits
  of that radix, or an optional sign before \<open>Infinity\<close> or before decimal digits with an
  optional point and an optional exponent, with a digit on one side of the point at least.
  Any other text is NaN.

  \<open>decimal neg ds x\<close> is the number that the digits \<open>ds\<close> times 10 to the \<open>x\<close> denote,
  negated for \<open>neg\<close>. A numeral of at most \<open>2^-1075\<close>, half the least double, is 0. The
  value is otherwise kept exact; from \<open>2^53\<close> on, where every double is an integer, the
  fraction is dropped.
\<close>

definition dec_text :: "string \<Rightarrow> int \<Rightarrow> string" where
  "dec_text ds n =
     (if 0 < n then take (nat n) ds @ ''.'' @ drop (nat n) ds
      else if - 6 < n then ''0.'' @ replicate (nat (- n)) (CHR ''0'') @ ds
      else scientific ds (''e-'' @ show_nat (nat (1 - n))))"

definition decimal :: "bool \<Rightarrow> string \<Rightarrow> int \<Rightarrow> jsnum" where
  "decimal neg ds x =
     (let ds1 = dropWhile (\<lambda>c. c = CHR ''0'') ds;
          ds2 = significant ds1;
          x2 = x + int (length ds1) - int (length ds2);
          n = int (length ds2) + x2
      in
      if ds2 = [] then Fin 0
      else if 0 \<le> x2 then Fin ((if neg then - 1 else 1) * (int (read_nat ds2) * 10 ^ nat x2))
      else if read_nat ds2 * 2 ^ 1075 \<le> 10 ^ nat (- x2) then Fin 0
      else if 0 < n \<and> 2 ^ 53 \<le> read_nat (take (nat n) ds2)
        then Fin ((if neg then - 1 else 1) * int (read_nat (take (nat n) ds2)))
      else Dec (Abs_dectext ((if neg then ''-'' else []) @ dec_text ds2 n)))"

definition exponent_part :: "string \<Rightarrow> int option" where
  "exponent_part r =
     (if r = [] then Some 0
      else if hd r = CHR ''e'' \<or> hd r = CHR ''E'' then
        (let u = tl r;
             ds = (if u \<noteq> [] \<and> (hd u = CHR ''+'' \<or> hd u = CHR ''-'') then tl u else u)
         in if ds \<noteq> [] \<and> list_all is_digit ds
            then Some ((if u \<noteq> [] \<and> hd u = CHR ''-'' then - 1 else 1) * int (read_nat ds))
            else None)
      else None)"

definition unsigned_decimal :: "bool \<Rightarrow> string \<Rightarrow> jsnum" where
  "unsigned_decimal neg u =
     (if u = ''Infinity'' then Inf neg
      else
        (let a = takeWhile is_digit u;
             r = dropWhile is_digit u;
             dot = (r \<noteq> [] \<and> hd r = CHR ''.'');
             b = (if dot then takeWhile is_digit (tl r) else []);
             r2 = (if dot then dropWhile is_digit (tl r) else r)
         in if a = [] \<and> b = [] then NaN
            else (case exponent_part r2 of
                    None \<Rightarrow> NaN
                  | Some e \<Rightarrow> decimal neg (a @ b) (e - int (length b)))))"

definition radix_literal :: "nat \<Rightarrow> string \<Rightarrow> jsnum" where
  "radix_literal b ds = (case read_radix b ds of None \<Rightarrow> NaN | Some n \<Rightarrow> Fin (int n))"

definition str_to_num :: "string \<Rightarrow> jsnum" where
  "str_to_num s =
     (let t = trim s in
      if t = [] then Fin 0
      else if take 2 t = ''0x'' \<or> take 2 t = ''0X'' then radix_literal 16 (drop 2 t)
      else if take 2 t = ''0o'' \<or> take 2 t = ''0O'' then radix_literal 8 (drop 2 t)
      else if take 2 t = ''0b'' \<or> take 2 t = ''0B'' then radix_literal 2 (drop 2 t)
      else if hd t = CHR ''+'' then unsigned_decimal False (tl t)
      else if hd t = CHR ''-'' then unsigned_decimal True (tl t)
      else unsigned_decimal False t)"

text \<open>\<open>String(v)\<close>; an array joins its elements with commas, null and undefined as empty.\<close>

fun join_comma :: "string list \<Rightarrow> string" where
  "join_comma [] = []"
| "join_comma [x] = x"
| "join_comma (x # y # ys) = x @ '','' @ join_comma (y # ys)"

fun to_string :: "jsval \<Rightarrow> string" where
  "to_string Undefined = ''undefined''"
| "to_string Null = ''null''"
| "to_string (Bool b) = (if b then ''true'' else ''false'')"
| "to_string (Num n) = num_to_string n"
| "to_string (Str s) = s"
| "to_string (Arr xs) =
     join_comma (map (\<lambda>x. if x = Undefined \<or> x = Null then [] else to_string x) xs)"
| "to_string (Obj kvs) = ''[object Object]''"

text \<open>\<open>Number(v)\<close>; arrays and objects go through their string form.\<close>

fun to_number :: "jsval \<Rightarrow> jsnum" where
  "to_number Undefined = NaN"
| "to_number Null = Fin 0"
| "to_number (Bool b) = (if b then Fin 1 else Fin 0)"
| "to_number (Num n) = n"
| "to_number (Str s) = str_to_num s"
| "to_number (Arr xs) = str_to_num (to_string (Arr xs))"
| "to_number (Obj kvs) = NaN"

text \<open>Truthiness, as tested by \<open>if\<close>, \<open>!\<close>, \<open>||\<close> and \<open>?:\<close>.\<close>

fun truthy :: "jsval \<Rightarrow> bool" where
  "truthy Undefined = False"
| "truthy Null = False"
| "truthy (Bool b) = b"
| "truthy (Num NaN) = False"
| "truthy (Num (Fin n)) = (n \<noteq> 0)"
| "truthy (Num (Inf neg)) = True"
| "truthy (Num (Dec d)) = True"
| "truthy (Str s) = (s \<noteq> [])"
| "truthy (Arr xs) = True"
| "truthy (Obj kvs) = True"

text \<open>\<open>a || b\<close> and \<open>a ?? b\<close>.\<close>

definition js_or :: "jsval \<Rightarrow> jsval \<Rightarrow> jsval" where
  "js_or a b = (if truthy a then a else b)"

definition nullish :: "jsval \<Rightarrow> jsval \<Rightarrow> jsval" where
  "nullish a b = (if a = Undefined \<or> a = Null then b else a)"

text \<open>\<open>Number(x) ? 1 : 0\<close>, the normalisation of a pin value.\<close>

definition bit_of :: "jsval \<Rightarrow> jsnum" where
  "bit_of x = (if truthy (Num (to_number x)) then Fin 1 else Fin 0)"

subsection \<open>Property access\<close>

text \<open>
  \<open>v[k]\<close> for a property name \<open>k\<close>. Reading a property of null or undefined throws a
  TypeError; a missing property is undefined; arrays and strings have their indices and
  \<open>length\<close>. Only own properties are modelled: the names the server reads (\<open>pins\<close>,
  \<open>number\<close>, \<open>label\<close>, \<open>direction\<close>, \<open>value\<close> and printed numbers) are not
  names of a prototype.
\<close>

definition is_index :: "string \<Rightarrow> bool" where
  "is_index k = (k \<noteq> [] \<and> list_all is_digit k \<and> show_nat (read_nat k) = k)"

fun get_prop :: "jsval \<Rightarrow> string \<Rightarrow> error + jsval" where
  "get_prop Undefined k = Inl TypeError"
| "get_prop Null k = Inl TypeError"
| "get_prop (Bool b) k = Inr Undefined"
| "get_prop (Num n) k = Inr Undefined"
| "get_prop (Str s) k =
     (if k = ''length'' then Inr (Num (Fin (int (length s))))
      else if is_index k \<and> read_nat k < length s then Inr (Str [s ! read_nat k])
      else Inr Undefined)"
| "get_prop (Arr xs) k =
     (if k = ''length'' then Inr (Num (Fin (int (length xs))))
      else if is_index k \<and> read_nat k < length xs then Inr (xs ! read_nat k)
      else Inr Undefined)"
| "get_prop (Obj kvs) k = (case map_of kvs k of Some v \<Rightarrow> Inr v | None \<Rightarrow> Inr Undefined)"


text \<open>
  \<open>v[k] = x\<close>, returning the updated value. Writing a property of null or undefined
  throws; on a number, boolean or string the assignment is ignored (the file is not in
  strict mode); an array is written at an index and padded with holes, which read as
  undefined (a non-index name on an array is not kept by the model).
\<close>

fun set_prop :: "jsval \<Rightarrow> string \<Rightarrow> jsval \<Rightarrow> error + jsval" where
  "set_prop Undefined k x = Inl TypeError"
| "set_prop Null k x = Inl TypeError"
| "set_prop (Bool b) k x = Inr (Bool b)"
| "set_prop (Num n) k x = Inr (Num n)"
| "set_prop (Str s) k x = Inr (Str s)"
| "set_prop (Arr xs) k x =
     (if is_index k then
        (if read_nat k < length xs then Inr (Arr (xs[read_nat k := x]))
         else Inr (Arr (xs @ replicate (read_nat k - length xs) Undefined @ [x])))
      else Inr (Arr xs))"
| "set_prop (Obj kvs) k x = Inr (Obj (AList.update k x kvs))"

section \<open>Persistence: JSON documents on disk\<close>

text \<open>
  A file's text is represented by what \<open>JSON.parse\<close> makes of it: \<open>Json v\<close> when the
  text parses to \<open>v\<close>, \<open>Garbage\<close> when parsing throws. \<open>JSON.stringify(d, null, 2)\<close>
  is represented by the value its output parses back to, \<open>json_val d\<close>: undefined
  properties are dropped, undefined array elements, NaN and the infinities become null, and
  a top-level undefined has no text at all (\<open>None\<close>).
\<close>

datatype content = Json jsval | Garbage

fun json_val :: "jsval \<Rightarrow> jsval option" where
  "json_val Undefined = None"
| "json_val Null = Some Null"
| "json_val (Bool b) = Some (Bool b)"
| "json_val (Num NaN) = Some Null"
| "json_val (Num (Fin n)) = Some (Num (Fin n))"
| "json_val (Num (Inf neg)) = Some Null"
| "json_val (Num (Dec d)) = Some (Num (Dec d))"
| "json_val (Str s) = Some (Str s)"
| "json_val (Arr xs) =
     Some (Arr (map (\<lambda>x. case json_val x of None \<Rightarrow> Null | Some y \<Rightarrow> y) xs))"
| "json_val (Obj kvs) =
     Some (Obj (concat (map (\<lambda>kv. case json_val (snd kv) of None \<Rightarrow> [] | Some y \<Rightarrow> [(fst kv, y)]) kvs)))"

definition CONFIG_FILE :: string where
  "CONFIG_FILE = ''gpio-config.json''"

definition STATE_FILE :: string where
  "STATE_FILE = ''gpio-state.json''"

section \<open>The server state\<close>

text \<open>
  The in-memory \<open>Gpio\<close> class of the second variant: a number, a direction, the stored
  value and the registered watch callbacks. Every callback the server registers is the
  same closure over the pin's \<open>number\<close>, so a callback is represented by that number.
\<close>

record gpio =
  gnumber :: jsval
  gdirection :: jsval
  gvalue :: jsnum
  watchers :: "jsval list"

record meta =
  number :: jsnum
  direction :: string
  label :: jsval

record entry =
  gpio :: gpio
  meta :: meta

text \<open>Messages pushed to every connected session with \<open>io.emit\<close>.\<close>

datatype event =
    PinEvent jsnum jsnum
  | InitEvent jsval jsval
  | StatusEvent jsval

text \<open>
  The module-level variables and the outside world they act on. \<open>files\<close> is the disk and
  \<open>readonly\<close> the paths on which \<open>writeFileSync\<close> throws. \<open>use_mock\<close> says the in-memory
  class is in use; otherwise the hardware driver is, and \<open>ctor_fail\<close>, \<open>write_fail\<close> and
  \<open>read_fail\<close> list the pins (by printed number) on which its constructor, its
  \<open>writeSync\<close> and its \<open>readSync\<close> throw. \<open>mqtt\<close> says \<open>mqttClient\<close> is not null.
  \<open>emitted\<close>, \<open>published\<close> (topic, payload, retain flag) and \<open>subscribed\<close> log what was
  sent to the sessions and to the broker, oldest first.
\<close>

record ('k, 'e) server =
  config :: jsval
  savedState :: jsval
  pins :: "('k \<times> 'e) list"
  files :: "(string \<times> content) list"
  readonly :: "string list"
  use_mock :: bool
  ctor_fail :: "string list"
  write_fail :: "string list"
  read_fail :: "string list"
  mqtt :: bool
  MQTT_PREFIX :: string
  emitted :: "event list"
  published :: "(string \<times> string \<times> bool) list"
  subscribed :: "string list"

type_synonym server2 = "(jsnum, entry) server"

subsection \<open>Files\<close>

definition writeFileSync :: "('k, 'e) server \<Rightarrow> string \<Rightarrow> content \<Rightarrow> error option \<times> ('k, 'e) server" where
  "writeFileSync s file data =
     (if file \<in> set (readonly s) then (Some IOError, s)
      else (None, s\<lparr>files := AList.update file data (files s)\<rparr>))"

text \<open>\<open>JSON.parse(fs.readFileSync(file, 'utf8'))\<close>: a missing file and a bad text both throw.\<close>

definition read_json :: "('k, 'e) server \<Rightarrow> string \<Rightarrow> error + jsval" where
  "read_json s file =
     (case map_of (files s) file of
        None \<Rightarrow> Inl IOError
      | Some Garbage \<Rightarrow> Inl SyntaxError
      | Some (Json v) \<Rightarrow> Inr v)"

text \<open>\<open>readJsonSafe(file, fallback)\<close> and \<open>writeJsonSafe(file, data)\<close> (part_000, lines 78-88).\<close>

definition readJsonSafe :: "('k, 'e) server \<Rightarrow> string \<Rightarrow> jsval \<Rightarrow> jsval" where
  "readJsonSafe s file fallback =
     (case read_json s file of Inl _ \<Rightarrow> fallback | Inr v \<Rightarrow> v)"

definition writeJsonSafe :: "('k, 'e) server \<Rightarrow> string \<Rightarrow> jsval \<Rightarrow> error option \<times> ('k, 'e) server" where
  "writeJsonSafe s file data =
     (case json_val data of
        None \<Rightarrow> (Some TypeError, s)
      | Some d \<Rightarrow> writeFileSync s file (Json d))"

text \<open>The two loads at module start (part_000, lines 91-92).\<close>

definition load_config :: "('k, 'e) server \<Rightarrow> ('k, 'e) server" where
  "load_config s = s\<lparr>config := readJsonSafe s CONFIG_FILE (Obj [(''pins'', Arr [])])\<rparr>"

definition load_state :: "('k, 'e) server \<Rightarrow> ('k, 'e) server" where
  "load_state s = s\<lparr>savedState := readJsonSafe s STATE_FILE (Obj [])\<rparr>"

section \<open>The hardware driver\<close>

text \<open>
  The driver library is not part of the repository. It is represented as the repository's
  own stand-in class represents it (part_000, lines 48-61): an object holding the level
  last written, read back by \<open>readSync\<close>; in addition each of its operations throws on
  the pins listed for it.
\<close>

definition hw_new :: "('k, 'e) server \<Rightarrow> jsval \<Rightarrow> jsval \<Rightarrow> error + gpio" where
  "hw_new s n d =
     (if to_string n \<in> set (ctor_fail s) then Inl DriverError
      else Inr \<lparr>gnumber = n, gdirection = d, gvalue = Fin 0, watchers = []\<rparr>)"

definition hw_write :: "('k, 'e) server \<Rightarrow> gpio \<Rightarrow> jsval \<Rightarrow> error + gpio" where
  "hw_write s g v =
     (if to_string (gnumber g) \<in> set (write_fail s) then Inl DriverError
      else Inr (g\<lparr>gvalue := to_number v\<rparr>))"

definition hw_read :: "('k, 'e) server \<Rightarrow> gpio \<Rightarrow> error + jsval" where
  "hw_read s g =
     (if to_string (gnumber g) \<in> set (read_fail s) then Inl DriverError
      else Inr (Num (gvalue g)))"

section \<open>Second variant (part_000)\<close>

subsection \<open>MQTT bridge\<close>

text \<open>\<open>publishMqtt(number, value)\<close> (lines 97-102): nothing without a client.\<close>

definition publishMqtt :: "server2 \<Rightarrow> jsnum \<Rightarrow> jsval \<Rightarrow> server2" where
  "publishMqtt s n v =
     (if \<not> mqtt s then s
      else s\<lparr>published := published s @
             [(MQTT_PREFIX s @ ''/'' @ num_to_string n @ ''/state'',
               if truthy v then ''ON'' else ''OFF'', True)]\<rparr>)"

text \<open>\<open>subscribeMqttForPin(number)\<close> (lines 104-110).\<close>

definition subscribeMqttForPin :: "server2 \<Rightarrow> jsnum \<Rightarrow> server2" where
  "subscribeMqttForPin s n =
     (if \<not> mqtt s then s
      else s\<lparr>subscribed := subscribed s @ [MQTT_PREFIX s @ ''/'' @ num_to_string n @ ''/set'']\<rparr>)"

subsection \<open>The pin driver\<close>

text \<open>\<open>new Gpio(number, direction)\<close> (lines 30-35), or the hardware driver's constructor.\<close>

definition new_Gpio :: "('k, 'e) server \<Rightarrow> jsval \<Rightarrow> jsval \<Rightarrow> error + gpio" where
  "new_Gpio s n d =
     (if use_mock s then Inr \<lparr>gnumber = n, gdirection = d, gvalue = Fin 0, watchers = []\<rparr>
      else hw_new s n d)"

text \<open>
  The callback that \<open>setupPins\<close> registers on an input pin (lines 136-140), for the pin
  number \<open>w\<close> it closes over: a delta to the sessions and a publish.
\<close>

definition watch_callback :: "server2 \<Rightarrow> jsval \<Rightarrow> jsval \<Rightarrow> server2" where
  "watch_callback s w v =
     publishMqtt (s\<lparr>emitted := emitted s @ [PinEvent (to_number w) (to_number v)]\<rparr>)
       (to_number w) (Num (to_number v))"

text \<open>
  \<open>gpio.writeSync(v)\<close> on the adapter registered under key \<open>k\<close> (lines 36 and 41): the
  in-memory class stores \<open>Number(v)\<close> and calls its watchers; otherwise the write is
  the hardware driver's.
\<close>

definition writeSync :: "server2 \<Rightarrow> jsnum \<Rightarrow> jsval \<Rightarrow> error option \<times> server2" where
  "writeSync s k v =
     (case map_of (pins s) k of
        None \<Rightarrow> (None, s)
      | Some e \<Rightarrow>
          if use_mock s then
            (None, fold (\<lambda>w t. watch_callback t w (Num (to_number v))) (watchers (gpio e))
                     (s\<lparr>pins := AList.update k (e\<lparr>gpio := (gpio e)\<lparr>gvalue := to_number v\<rparr>\<rparr>) (pins s)\<rparr>))
          else
            (case hw_write s (gpio e) v of
               Inl err \<Rightarrow> (Some err, s)
             | Inr g \<Rightarrow> (None, s\<lparr>pins := AList.update k (e\<lparr>gpio := g\<rparr>) (pins s)\<rparr>)))"

text \<open>\<open>gpio.readSync()\<close> (line 37), or the hardware driver's read.\<close>

definition readSync :: "('k, 'e) server \<Rightarrow> gpio \<Rightarrow> error + jsval" where
  "readSync s g = (if use_mock s then Inr (Num (gvalue g)) else hw_read s g)"

text \<open>\<open>gpio.watch(cb)\<close> (line 38) on the adapter registered under key \<open>k\<close>.\<close>

definition watch :: "server2 \<Rightarrow> jsnum \<Rightarrow> jsval \<Rightarrow> server2" where
  "watch s k w =
     (case map_of (pins s) k of
        None \<Rightarrow> s
      | Some e \<Rightarrow>
          s\<lparr>pins := AList.update k (e\<lparr>gpio := (gpio e)\<lparr>watchers := watchers (gpio e) @ [w]\<rparr>\<rparr>) (pins s)\<rparr>)"

subsection \<open>Snapshot\<close>

text \<open>
  \<open>getCurrentState()\<close> (lines 149-159): the loop over the map's entries, carrying the
  object being built. A read that throws falls to \<open>savedState[num] ?? 0\<close>, which
  itself throws when \<open>savedState\<close> is null.
\<close>

fun state_loop :: "server2 \<Rightarrow> (jsnum \<times> entry) list \<Rightarrow> (string \<times> jsval) list \<Rightarrow> error + (string \<times> jsval) list" where
  "state_loop s [] st = Inr st"
| "state_loop s ((num, e) # rest) st =
     (case readSync s (gpio e) of
        Inr v \<Rightarrow> state_loop s rest (AList.update (num_to_string num) (Num (to_number v)) st)
      | Inl _ \<Rightarrow>
          (case get_prop (savedState s) (num_to_string num) of
             Inl err \<Rightarrow> Inl err
           | Inr sv \<Rightarrow>
               state_loop s rest
                 (AList.update (num_to_string num) (Num (to_number (nullish sv (Num (Fin 0))))) st)))"

definition getCurrentState :: "server2 \<Rightarrow> error + jsval" where
  "getCurrentState s =
     (case state_loop s (pins s) [] of Inl err \<Rightarrow> Inl err | Inr st \<Rightarrow> Inr (Obj st))"

text \<open>\<open>broadcastFullState()\<close> (lines 161-166).\<close>

definition broadcastFullState :: "server2 \<Rightarrow> error option \<times> server2" where
  "broadcastFullState s =
     (case getCurrentState s of
        Inl err \<Rightarrow> (Some err, s)
      | Inr st \<Rightarrow> (None, s\<lparr>emitted := emitted s @ [InitEvent (config s) st]\<rparr>))"

subsection \<open>Registry rebuild\<close>

text \<open>
  The sequence that \<open>for (const p of config.pins || [])\<close> runs over (line 120): an
  array's elements, a string's characters; anything else that is truthy is not iterable.
\<close>

definition pin_list :: "jsval \<Rightarrow> error + jsval list" where
  "pin_list cfg =
     (case get_prop cfg ''pins'' of
        Inl err \<Rightarrow> Inl err
      | Inr ps \<Rightarrow>
          (case js_or ps (Arr []) of
             Arr xs \<Rightarrow> Inr xs
           | Str cs \<Rightarrow> Inr (map (\<lambda>c. Str [c]) cs)
           | _ \<Rightarrow> Inl TypeError))"

text \<open>
  One pass of the loop body (lines 121-143). The constructor is not inside a
  \<open>try\<close>, nor are the property reads; the write and the watch are.
\<close>

definition setup_pin :: "server2 \<Rightarrow> jsval \<Rightarrow> error option \<times> server2" where
  "setup_pin s p =
     (case get_prop p ''number'' of
        Inl err \<Rightarrow> (Some err, s)
      | Inr pn \<Rightarrow>
     (case get_prop p ''direction'' of
        Inl err \<Rightarrow> (Some err, s)
      | Inr pd \<Rightarrow>
     (case js_or pd (Str ''out'') of
        Str d \<Rightarrow>
          (case get_prop p ''label'' of
             Inl err \<Rightarrow> (Some err, s)
           | Inr pl \<Rightarrow>
               let n = to_number pn;
                   dir = (if toLowerCase d = ''in'' then ''in'' else ''out'');
                   lab = js_or pl (Str (''GPIO '' @ num_to_string n))
               in
               (case new_Gpio s (Num n) (Str dir) of
                  Inl err \<Rightarrow> (Some err, s)
                | Inr g \<Rightarrow>
                    let s1 = s\<lparr>pins := AList.update n
                               \<lparr>gpio = g, meta = \<lparr>number = n, direction = dir, label = lab\<rparr>\<rparr> (pins s)\<rparr>
                    in
                    if dir = ''out'' then
                      (case get_prop (savedState s1) (num_to_string n) of
                         Inl err \<Rightarrow> (Some err, s1)
                       | Inr sv \<Rightarrow>
                           let initial = bit_of (nullish sv (Num (Fin 0)));
                               s2 = snd (writeSync s1 n (Num initial));
                               s3 = publishMqtt s2 n (Num initial)
                           in (None, subscribeMqttForPin s3 n))
                    else (None, subscribeMqttForPin (watch s1 n (Num n)) n)))
      | _ \<Rightarrow> (Some TypeError, s))))"

fun setup_loop :: "server2 \<Rightarrow> jsval list \<Rightarrow> error option \<times> server2" where
  "setup_loop s [] = (None, s)"
| "setup_loop s (p # ps) =
     (case setup_pin s p of
        (None, s') \<Rightarrow> setup_loop s' ps
      | (Some err, s') \<Rightarrow> (Some err, s'))"

text \<open>
  \<open>setupPins()\<close> (lines 112-147): the old adapters are released and the map cleared,
  the loop runs, and one full snapshot is broadcast.
\<close>

definition setupPins :: "server2 \<Rightarrow> error option \<times> server2" where
  "setupPins s =
     (let s0 = s\<lparr>pins := []\<rparr> in
      case pin_list (config s0) of
        Inl err \<Rightarrow> (Some err, s0)
      | Inr ps \<Rightarrow>
          (case setup_loop s0 ps of
             (Some err, s1) \<Rightarrow> (Some err, s1)
           | (None, s1) \<Rightarrow> broadcastFullState s1))"

subsection \<open>Inbound set requests\<close>

text \<open>
  What both handlers do once the entry is found and is an output (lines 220-226 and
  239-244): write through the adapter inside a \<open>try\<close>, store into \<open>savedState\<close>, save the
  state document inside a \<open>try\<close>, broadcast the delta, publish. \<open>k\<close> is the key the entry
  was found under and \<open>n\<close> the number used for the state key, the delta and the topic.
\<close>

definition apply_output :: "server2 \<Rightarrow> jsnum \<Rightarrow> jsnum \<Rightarrow> jsnum \<Rightarrow> error option \<times> server2" where
  "apply_output s k n v =
     (let s1 = snd (writeSync s k (Num v)) in
      case set_prop (savedState s1) (num_to_string n) (Num v) of
        Inl err \<Rightarrow> (Some err, s1)
      | Inr st \<Rightarrow>
          let s2 = s1\<lparr>savedState := st\<rparr>;
              s3 = snd (writeJsonSafe s2 STATE_FILE (savedState s2));
              s4 = s3\<lparr>emitted := emitted s3 @ [PinEvent n v]\<rparr>
          in (None, publishMqtt s4 n (Num v)))"

text \<open>The \<open>setPin\<close> handler (lines 214-227); \<open>msg\<close> is the message's argument.\<close>

definition setPin :: "server2 \<Rightarrow> jsval \<Rightarrow> error option \<times> server2" where
  "setPin s msg =
     (case get_prop msg ''number'' of
        Inl err \<Rightarrow> (Some err, s)
      | Inr num \<Rightarrow>
     (case get_prop msg ''value'' of
        Inl err \<Rightarrow> (Some err, s)
      | Inr val \<Rightarrow>
     (case map_of (pins s) (to_number num) of
        None \<Rightarrow> (None, s)
      | Some e \<Rightarrow>
          if direction (meta e) \<noteq> ''out'' then (None, s)
          else apply_output s (to_number num) (number (meta e)) (bit_of val))))"

text \<open>
  The topic pattern of line 234, \<open>^<prefix>/(\d+)/set$\<close> with the prefix taken
  literally: the result is the digits captured.
\<close>

definition match_set_topic :: "string \<Rightarrow> string \<Rightarrow> string option" where
  "match_set_topic prefix topic =
     (let p = prefix @ ''/'' in
      if take (length p) topic = p then
        (let rest = drop (length p) topic;
             ds = takeWhile is_digit rest
         in if ds \<noteq> [] \<and> dropWhile is_digit rest = ''/set'' then Some ds else None)
      else None)"

text \<open>The payload rule of lines 233 and 239.\<close>

definition payload_value :: "string \<Rightarrow> jsnum" where
  "payload_value payload =
     (let s = toUpperCase (trim payload) in if s = ''ON'' \<or> s = ''1'' then Fin 1 else Fin 0)"

text \<open>The MQTT \<open>message\<close> handler (lines 232-245).\<close>

definition on_message :: "server2 \<Rightarrow> string \<Rightarrow> string \<Rightarrow> error option \<times> server2" where
  "on_message s topic payload =
     (case match_set_topic (MQTT_PREFIX s) topic of
        None \<Rightarrow> (None, s)
      | Some ds \<Rightarrow>
          let n = to_number (Str ds) in
          (case map_of (pins s) n of
             None \<Rightarrow> (None, s)
           | Some e \<Rightarrow>
               if direction (meta e) \<noteq> ''out'' then (None, s)
               else apply_output s n n (payload_value payload)))"

subsection \<open>Configuration surface\<close>

text \<open>
  A reply sent by the handler with its status and body, or an exception that leaves the
  handler (the framework then answers with an error of its own).
\<close>

datatype response = Reply nat jsval | Uncaught error

definition is_error :: "response \<Rightarrow> bool" where
  "is_error r = (case r of Reply code body \<Rightarrow> 400 \<le> code | Uncaught err \<Rightarrow> True)"

text \<open>The object built for each pin by the \<open>map\<close> of lines 187-191.\<close>

definition sanitize :: "jsval \<Rightarrow> error + jsval" where
  "sanitize p =
     (case get_prop p ''number'' of
        Inl err \<Rightarrow> Inl err
      | Inr pn \<Rightarrow>
     (case get_prop p ''label'' of
        Inl err \<Rightarrow> Inl err
      | Inr pl \<Rightarrow>
     (case get_prop p ''direction'' of
        Inl err \<Rightarrow> Inl err
      | Inr pd \<Rightarrow>
          Inr (Obj [(''number'', Num (to_number pn)),
                    (''label'', Str (to_string (js_or pl (Str [])))),
                    (''direction'',
                       Str (if toLowerCase (to_string (js_or pd (Str ''out''))) = ''in''
                            then ''in'' else ''out''))]))))"

fun sanitize_all :: "jsval list \<Rightarrow> error + jsval list" where
  "sanitize_all [] = Inr []"
| "sanitize_all (p # ps) =
     (case sanitize p of
        Inl err \<Rightarrow> Inl err
      | Inr q \<Rightarrow> (case sanitize_all ps of Inl err \<Rightarrow> Inl err | Inr qs \<Rightarrow> Inr (q # qs)))"

text \<open>\<open>POST /api/config\<close> (lines 181-201).\<close>

definition post_config :: "server2 \<Rightarrow> jsval \<Rightarrow> response \<times> server2" where
  "post_config s body =
     (if \<not> truthy body then
        (Reply 400 (Obj [(''error'', Str ''Invalid config: expected { pins: [...] }'')]), s)
      else
        case get_prop body ''pins'' of
          Inl err \<Rightarrow> (Uncaught err, s)
        | Inr (Arr ps) \<Rightarrow>
            (case sanitize_all ps of
               Inl err \<Rightarrow> (Uncaught err, s)
             | Inr qs \<Rightarrow>
                 (case set_prop body ''pins'' (Arr qs) of
                    Inl err \<Rightarrow> (Uncaught err, s)
                  | Inr newConfig \<Rightarrow>
                      let s1 = s\<lparr>config := newConfig\<rparr> in
                      (case writeJsonSafe s1 CONFIG_FILE (config s1) of
                         (Some err, s2) \<Rightarrow>
                           (Reply 500 (Obj [(''error'', Str ''Failed to write gpio-config.json'')]), s2)
                       | (None, s2) \<Rightarrow>
                           (case setupPins s2 of
                              (Some err, s3) \<Rightarrow> (Uncaught err, s3)
                            | (None, s3) \<Rightarrow>
                                (Reply 200 (Obj [(''ok'', Bool True), (''config'', config s3)]), s3)))))
        | Inr _ \<Rightarrow>
            (Reply 400 (Obj [(''error'', Str ''Invalid config: expected { pins: [...] }'')]), s))"

section \<open>First variant (server.js)\<close>

text \<open>
  Here \<open>pins\<close> is a plain object, keyed by the printed pin number; an entry keeps the
  label and direction as the configuration document gave them. The driver is always the
  hardware driver; the broker client always exists and topics start with \<open>home/gpio\<close>.
\<close>

record pin1 =
  pgpio :: gpio
  plabel :: jsval
  pdirection :: jsval

type_synonym server1 = "(string, pin1) server"

text \<open>
  The two loads at module start (lines 13-19): the configuration is parsed outside any
  \<open>try\<close>, the state inside one. \<open>Inl\<close> is the exception that ends the process.
\<close>

definition startup1 :: "server1 \<Rightarrow> error + server1" where
  "startup1 s =
     (case read_json s CONFIG_FILE of
        Inl err \<Rightarrow> Inl err
      | Inr c \<Rightarrow>
          Inr (s\<lparr>config := c,
                 savedState := (case read_json s STATE_FILE of Inl _ \<Rightarrow> Obj [] | Inr v \<Rightarrow> v)\<rparr>))"

text \<open>\<open>emitStatus()\<close> (lines 88-99); a read that throws is not caught.\<close>

fun status_loop :: "server1 \<Rightarrow> (string \<times> pin1) list \<Rightarrow> (string \<times> jsval) list \<Rightarrow> error + (string \<times> jsval) list" where
  "status_loop s [] st = Inr st"
| "status_loop s ((pin, obj) # rest) st =
     (case hw_read s (pgpio obj) of
        Inl err \<Rightarrow> Inl err
      | Inr v \<Rightarrow>
          status_loop s rest
            (AList.update pin
               (Obj [(''value'', v), (''label'', plabel obj), (''direction'', pdirection obj)]) st))"

definition emitStatus :: "server1 \<Rightarrow> error option \<times> server1" where
  "emitStatus s =
     (case status_loop s (pins s) [] of
        Inl err \<Rightarrow> (Some err, s)
      | Inr st \<Rightarrow> (None, s\<lparr>emitted := emitted s @ [StatusEvent (Obj st)]\<rparr>))"

text \<open>\<open>saveState(pin, value)\<close> (lines 101-104); the write is not inside a \<open>try\<close>.\<close>

definition saveState :: "server1 \<Rightarrow> string \<Rightarrow> jsval \<Rightarrow> error option \<times> server1" where
  "saveState s pin v =
     (case set_prop (savedState s) pin v of
        Inl err \<Rightarrow> (Some err, s)
      | Inr st \<Rightarrow>
          let s1 = s\<lparr>savedState := st\<rparr> in
          (case json_val (savedState s1) of
             None \<Rightarrow> (Some TypeError, s1)
           | Some d \<Rightarrow> writeFileSync s1 STATE_FILE (Json d)))"

text \<open>\<open>mqttClient.publish(`home/gpio/${pin}/state`, value ? 'ON' : 'OFF')\<close>.\<close>

definition publish1 :: "server1 \<Rightarrow> string \<Rightarrow> jsval \<Rightarrow> server1" where
  "publish1 s pin v =
     s\<lparr>published := published s @
         [(''home/gpio/'' @ pin @ ''/state'', if truthy v then ''ON'' else ''OFF'', False)]\<rparr>"

text \<open>
  What both handlers of this variant do after computing the new value (lines 80-83 and
  112-115): write, save, broadcast the status, publish. The first exception ends the
  handler, with what was done before it kept.
\<close>

definition drive1 :: "server1 \<Rightarrow> string \<Rightarrow> pin1 \<Rightarrow> jsval \<Rightarrow> error option \<times> server1" where
  "drive1 s pin obj v =
     (case hw_write s (pgpio obj) v of
        Inl err \<Rightarrow> (Some err, s)
      | Inr g \<Rightarrow>
          let s1 = s\<lparr>pins := AList.update pin (obj\<lparr>pgpio := g\<rparr>) (pins s)\<rparr> in
          (case saveState s1 pin v of
             (Some err, s2) \<Rightarrow> (Some err, s2)
           | (None, s2) \<Rightarrow>
               (case emitStatus s2 of
                  (Some err, s3) \<Rightarrow> (Some err, s3)
                | (None, s3) \<Rightarrow> (None, publish1 s3 pin v))))"

text \<open>
  \<open>x ^ 1\<close>: the operand is taken as a 32-bit signed integer, a number that is not an
  integer by its integer part, which its text shows.
\<close>

definition int_part :: "string \<Rightarrow> int" where
  "int_part t =
     (let neg = (t \<noteq> [] \<and> hd t = CHR ''-''); u = (if neg then tl t else t) in
      if CHR ''e'' \<in> set u then 0
      else (if neg then - 1 else 1) * int (read_nat (takeWhile is_digit u)))"

definition wrap32 :: "int \<Rightarrow> int" where
  "wrap32 n = (let m = n mod 4294967296 in if 2147483648 \<le> m then m - 4294967296 else m)"

definition to_int32 :: "jsnum \<Rightarrow> int" where
  "to_int32 x =
     (case x of
        NaN \<Rightarrow> 0
      | Fin n \<Rightarrow> wrap32 n
      | Inf neg \<Rightarrow> 0
      | Dec d \<Rightarrow> wrap32 (int_part (Rep_dectext d)))"

definition xor1 :: "jsval \<Rightarrow> jsval" where
  "xor1 x = Num (Fin (xor (to_int32 (to_number x)) 1))"

text \<open>
  The \<open>toggle\<close> handler (lines 109-117); \<open>pin\<close> is the message's argument, used as a
  property name. Names inherited from \<open>Object.prototype\<close> are not outputs and take the
  same branch as a missing entry.
\<close>

definition toggle :: "server1 \<Rightarrow> jsval \<Rightarrow> error option \<times> server1" where
  "toggle s pin =
     (case map_of (pins s) (to_string pin) of
        None \<Rightarrow> (None, s)
      | Some obj \<Rightarrow>
          if pdirection obj \<noteq> Str ''out'' then (None, s)
          else
            (case hw_read s (pgpio obj) of
               Inl err \<Rightarrow> (Some err, s)
             | Inr r \<Rightarrow> drive1 s (to_string pin) obj (xor1 r)))"

text \<open>
  The topic pattern of line 75, \<open>home\/gpio\/(\d+)\/set\<close>, is not anchored: the first
  position of the topic where it matches gives the digits.
\<close>

definition match_here1 :: "string \<Rightarrow> string option" where
  "match_here1 t =
     (let p = ''home/gpio/'' in
      if take (length p) t = p then
        (let rest = drop (length p) t;
             ds = takeWhile is_digit rest
         in if ds \<noteq> [] \<and> take 4 (dropWhile is_digit rest) = ''/set'' then Some ds else None)
      else None)"

fun find_set_topic1 :: "string \<Rightarrow> string option" where
  "find_set_topic1 [] = match_here1 []"
| "find_set_topic1 (c # cs) =
     (case match_here1 (c # cs) of Some ds \<Rightarrow> Some ds | None \<Rightarrow> find_set_topic1 cs)"

definition payload_value1 :: "string \<Rightarrow> jsnum" where
  "payload_value1 message = (if message = ''ON'' then Fin 1 else Fin 0)"

text \<open>The MQTT \<open>message\<close> handler (lines 74-86).\<close>

definition on_message1 :: "server1 \<Rightarrow> string \<Rightarrow> string \<Rightarrow> error option \<times> server1" where
  "on_message1 s topic message =
     (case find_set_topic1 topic of
        None \<Rightarrow> (None, s)
      | Some pin \<Rightarrow>
          (case map_of (pins s) pin of
             None \<Rightarrow> (None, s)
           | Some obj \<Rightarrow>
               if pdirection obj \<noteq> Str ''out'' then (None, s)
               else drive1 s pin obj (Num (payload_value1 message))))"

text \<open>
  One pass of the \<open>forEach\<close> body of \<open>setupGpioPins\<close> (lines 51-64); nothing in it is
  inside a \<open>try\<close>. The watch callback of an input is represented by the pin's number.
\<close>

definition setup_pin1 :: "server1 \<Rightarrow> jsval \<Rightarrow> error option \<times> server1" where
  "setup_pin1 s p =
     (case get_prop p ''number'' of
        Inl err \<Rightarrow> (Some err, s)
      | Inr n \<Rightarrow>
     (case get_prop p ''label'' of
        Inl err \<Rightarrow> (Some err, s)
      | Inr lab \<Rightarrow>
     (case get_prop p ''direction'' of
        Inl err \<Rightarrow> (Some err, s)
      | Inr dir \<Rightarrow>
     (case hw_new s n dir of
        Inl err \<Rightarrow> (Some err, s)
      | Inr g \<Rightarrow>
          if dir = Str ''out'' then
            (case get_prop (savedState s) (to_string n) of
               Inl err \<Rightarrow> (Some err, s)
             | Inr sv \<Rightarrow>
                 (case hw_write s g (nullish sv (Num (Fin 0))) of
                    Inl err \<Rightarrow> (Some err, s)
                  | Inr g' \<Rightarrow>
                      (None, s\<lparr>pins := AList.update (to_string n)
                                  \<lparr>pgpio = g', plabel = lab, pdirection = dir\<rparr> (pins s)\<rparr>)))
          else if dir = Str ''in'' then
            (None, s\<lparr>pins := AList.update (to_string n)
                        \<lparr>pgpio = g\<lparr>watchers := watchers g @ [n]\<rparr>, plabel = lab, pdirection = dir\<rparr>
                        (pins s)\<rparr>)
          else
            (None, s\<lparr>pins := AList.update (to_string n)
                        \<lparr>pgpio = g, plabel = lab, pdirection = dir\<rparr> (pins s)\<rparr>)))))"

fun setup_loop1 :: "server1 \<Rightarrow> jsval list \<Rightarrow> error option \<times> server1" where
  "setup_loop1 s [] = (None, s)"
| "setup_loop1 s (p # ps) =
     (case setup_pin1 s p of
        (None, s') \<Rightarrow> setup_loop1 s' ps
      | (Some err, s') \<Rightarrow> (Some err, s'))"

text \<open>\<open>setupGpioPins()\<close> (lines 40-65); \<open>forEach\<close> exists on arrays only.\<close>

definition setupGpioPins :: "server1 \<Rightarrow> error option \<times> server1" where
  "setupGpioPins s =
     (let s0 = s\<lparr>pins := []\<rparr> in
      case get_prop (config s0) ''pins'' of
        Inl err \<Rightarrow> (Some err, s0)
      | Inr (Arr ps) \<Rightarrow> setup_loop1 s0 ps
      | Inr _ \<Rightarrow> (Some TypeError, s0))"

text \<open>\<open>POST /api/config\<close> (lines 126-141).\<close>

definition post_config1 :: "server1 \<Rightarrow> jsval \<Rightarrow> response \<times> server1" where
  "post_config1 s newConfig =
     (case get_prop newConfig ''pins'' of
        Inl err \<Rightarrow> (Uncaught err, s)
      | Inr (Arr ps) \<Rightarrow>
          (case json_val newConfig of
             None \<Rightarrow> (Reply 500 (Obj [(''error'', Str ''Failed to save config'')]), s)
           | Some d \<Rightarrow>
               (case writeFileSync s CONFIG_FILE (Json d) of
                  (Some err, s1) \<Rightarrow> (Reply 500 (Obj [(''error'', Str ''Failed to save config'')]), s1)
                | (None, s1) \<Rightarrow>
                    (case setupGpioPins (s1\<lparr>config := newConfig\<rparr>) of
                       (Some err, s2) \<Rightarrow>
                         (Reply 500 (Obj [(''error'', Str ''Failed to save config'')]), s2)
                     | (None, s2) \<Rightarrow> (Reply 200 (Obj [(''success'', Bool True)]), s2))))
      | Inr _ \<Rightarrow>
          (Reply 400 (Obj [(''error'', Str ''Invalid config format: missing pins[]'')]), s))"

section \<open>Process start and the notions the properties are stated with\<close>

text \<open>
  The module state before anything has run, over a given disk: nothing loaded, no pins
  registered, nothing sent. \<open>mock\<close> selects the in-memory driver, \<open>mq\<close> says a broker
  URL was configured; the topic prefix is the default.
\<close>

definition boot :: "(string \<times> content) list \<Rightarrow> bool \<Rightarrow> bool \<Rightarrow> ('k, 'e) server" where
  "boot disk mock mq =
     \<lparr>config = Undefined, savedState = Undefined, pins = [], files = disk, readonly = [],
      use_mock = mock, ctor_fail = [], write_fail = [], read_fail = [],
      mqtt = mq, MQTT_PREFIX = ''home/gpio'', emitted = [], published = [], subscribed = []\<rparr>"

text \<open>Second variant: the two loads, then \<open>setupPins()\<close> from the listen callback (line 250).\<close>

definition start2 :: "server2 \<Rightarrow> error option \<times> server2" where
  "start2 s = setupPins (load_state (load_config s))"

text \<open>First variant: the two loads, then \<open>setupGpioPins()\<close> (line 143).\<close>

definition start1 :: "server1 \<Rightarrow> error option \<times> server1" where
  "start1 s = (case startup1 s of Inl err \<Rightarrow> (Some err, s) | Inr s' \<Rightarrow> setupGpioPins s')"

text \<open>A pin number is an output when the registry has an entry for it whose direction is \<open>out\<close>.\<close>

definition is_output :: "server2 \<Rightarrow> jsnum \<Rightarrow> bool" where
  "is_output s n =
     (case map_of (pins s) n of None \<Rightarrow> False | Some e \<Rightarrow> direction (meta e) = ''out'')"

definition is_output1 :: "server1 \<Rightarrow> string \<Rightarrow> bool" where
  "is_output1 s pin =
     (case map_of (pins s) pin of None \<Rightarrow> False | Some obj \<Rightarrow> pdirection obj = Str ''out'')"

text \<open>
  What \<open>setupPins\<close> establishes of every entry and every handler keeps: the map's keys
  are distinct, an entry sits under its own number, its adapter was built for that
  number, and an output has no watch callback.
\<close>

definition entry_ok :: "jsnum \<times> entry \<Rightarrow> bool" where
  "entry_ok ke =
     (number (meta (snd ke)) = fst ke \<and> gnumber (gpio (snd ke)) = Num (fst ke) \<and>
      (direction (meta (snd ke)) = ''out'' \<longrightarrow> watchers (gpio (snd ke)) = []))"

definition registry_ok :: "server2 \<Rightarrow> bool" where
  "registry_ok s = (distinct (map fst (pins s)) \<and> list_all entry_ok (pins s))"






text \<open>A value is an object.\<close>

definition is_object :: "jsval \<Rightarrow> bool" where
  "is_object v = (case v of Obj kvs \<Rightarrow> True | _ \<Rightarrow> False)"




text \<open>
  A value that \<open>JSON.stringify\<close> keeps as it is: no undefined, no NaN and no infinity
  anywhere in it.
\<close>

fun json_clean :: "jsval \<Rightarrow> bool" where
  "json_clean Undefined = False"
| "json_clean Null = True"
| "json_clean (Bool b) = True"
| "json_clean (Num NaN) = False"
| "json_clean (Num (Fin n)) = True"
| "json_clean (Num (Inf neg)) = False"
| "json_clean (Num (Dec d)) = True"
| "json_clean (Str s) = True"
| "json_clean (Arr xs) = list_all json_clean xs"
| "json_clean (Obj kvs) = list_all (\<lambda>kv. json_clean (snd kv)) kvs"

subsection \<open>Rules as the specification words them\<close>


text \<open>
  The payload rule: a payload case-insensitively equal to \<open>ON\<close>, or equal to \<open>1\<close>, is 1,
  any other payload is 0.
\<close>

definition payload_spec :: "string \<Rightarrow> jsnum" where
  "payload_spec p = (if p \<in> {''ON'', ''On'', ''oN'', ''on'', ''1''} then Fin 1 else Fin 0)"

text \<open>
  Well-formed documents: a configuration is an object of JSON values whose \<open>pins\<close> is a
  sequence of objects with an integer \<open>number\<close>, a string \<open>label\<close> and a
  \<open>direction\<close> that is \<open>in\<close> or \<open>out\<close>; a state maps names to 0 or 1.
\<close>

definition wf_pin :: "jsval \<Rightarrow> bool" where
  "wf_pin p =
     (is_object p \<and> json_clean p \<and>
      (case get_prop p ''number'' of Inr (Num (Fin n)) \<Rightarrow> 0 \<le> n | _ \<Rightarrow> False) \<and>
      (case get_prop p ''label'' of Inr (Str l) \<Rightarrow> True | _ \<Rightarrow> False) \<and>
      (get_prop p ''direction'' = Inr (Str ''in'') \<or> get_prop p ''direction'' = Inr (Str ''out'')))"

definition wf_config :: "jsval \<Rightarrow> bool" where
  "wf_config c =
     (is_object c \<and> json_clean c \<and>
      (case get_prop c ''pins'' of Inr (Arr ps) \<Rightarrow> list_all wf_pin ps | _ \<Rightarrow> False))"

definition wf_state :: "jsval \<Rightarrow> bool" where
  "wf_state st =
     (case st of
        Obj kvs \<Rightarrow> distinct (map fst kvs) \<and> list_all (\<lambda>kv. snd kv = Num (Fin 0) \<or> snd kv = Num (Fin 1)) kvs
      | _ \<Rightarrow> False)"

subsection \<open>Concrete runs\<close>

text \<open>The configuration of the README, and the one-pin configuration of the scenarios.\<close>

definition led_pin :: jsval where
  "led_pin = Obj [(''number'', Num (Fin 17)), (''label'', Str ''LED''), (''direction'', Str ''out'')]"

definition button_pin :: jsval where
  "button_pin = Obj [(''number'', Num (Fin 22)), (''label'', Str ''Button''), (''direction'', Str ''in'')]"

definition led_config :: jsval where
  "led_config = Obj [(''pins'', Arr [led_pin])]"

definition readme_config :: jsval where
  "readme_config = Obj [(''pins'', Arr [led_pin, button_pin])]"

text \<open>
  The second variant after its start on a disk that holds the README configuration and
  no state file, with the in-memory driver and a broker.
\<close>

definition demo :: server2 where
  "demo =
     \<lparr>config = readme_config, savedState = Obj [],
      pins =
        [(Fin 17, \<lparr>gpio = \<lparr>gnumber = Num (Fin 17), gdirection = Str ''out'', gvalue = Fin 0, watchers = []\<rparr>,
                   meta = \<lparr>number = Fin 17, direction = ''out'', label = Str ''LED''\<rparr>\<rparr>),
         (Fin 22, \<lparr>gpio = \<lparr>gnumber = Num (Fin 22), gdirection = Str ''in'', gvalue = Fin 0,
                            watchers = [Num (Fin 22)]\<rparr>,
                   meta = \<lparr>number = Fin 22, direction = ''in'', label = Str ''Button''\<rparr>\<rparr>)],
      files = [(''gpio-config.json'', Json readme_config)], readonly = [],
      use_mock = True, ctor_fail = [], write_fail = [], read_fail = [],
      mqtt = True, MQTT_PREFIX = ''home/gpio'',
      emitted = [InitEvent readme_config (Obj [(''17'', Num (Fin 0)), (''22'', Num (Fin 0))])],
      published = [(''home/gpio/17/state'', ''OFF'', True)],
      subscribed = [''home/gpio/17/set'', ''home/gpio/22/set'']\<rparr>"

text \<open>The first variant after its start on the same disk, with the hardware driver.\<close>

definition demo1 :: server1 where
  "demo1 =
     \<lparr>config = readme_config, savedState = Obj [],
      pins =
        [(''17'', \<lparr>pgpio = \<lparr>gnumber = Num (Fin 17), gdirection = Str ''out'', gvalue = Fin 0, watchers = []\<rparr>,
                   plabel = Str ''LED'', pdirection = Str ''out''\<rparr>),
         (''22'', \<lparr>pgpio = \<lparr>gnumber = Num (Fin 22), gdirection = Str ''in'', gvalue = Fin 0,
                            watchers = [Num (Fin 22)]\<rparr>,
                   plabel = Str ''Button'', pdirection = Str ''in''\<rparr>)],
      files = [(''gpio-config.json'', Json readme_config)], readonly = [],
      use_mock = False, ctor_fail = [], write_fail = [], read_fail = [],
      mqtt = True, MQTT_PREFIX = ''home/gpio'',
      emitted = [], published = [], subscribed = []\<rparr>"





section \<open>Evaluation rules and basic facts\<close>

lemmas js_defs = js_or_def nullish_def bit_of_def str_to_num_def unsigned_decimal_def exponent_part_def
  decimal_def dec_text_def radix_literal_def read_radix_def radix_digit_def significant_def
  mantissa_def scientific_def magnitude_def trim_def white_space_def strip.simps is_digit_def
  toLowerCase_def toUpperCase_def lower_char_def upper_char_def read_nat_def digit_val_def
  digit_char_def show_nat.simps is_index_def Let_def

lemmas dec_defs = is_dectext_def is_positional_def is_scientific_def is_mantissa_def
  is_natural_def is_fraction_def

lemmas ex_defs = led_pin_def button_pin_def led_config_def readme_config_def

lemma digit_val_digit_char: "d < 10 \<Longrightarrow> digit_val (digit_char d) = d"
proof -
  assume "d < 10"
  then have "d \<in> {0,1,2,3,4,5,6,7,8,9}" by auto
  then show ?thesis by (auto simp: digit_val_def digit_char_def)
qed

lemma is_digit_digit_char: "d < 10 \<Longrightarrow> is_digit (digit_char d)"
proof -
  assume "d < 10"
  then have "d \<in> {0,1,2,3,4,5,6,7,8,9}" by auto
  then show ?thesis by (auto simp: is_digit_def digit_char_def)
qed

lemma read_nat_snoc: "read_nat (ds @ [c]) = 10 * read_nat ds + digit_val c"
  by (simp add: read_nat_def)

lemma read_show_nat: "read_nat (show_nat n) = n"
proof (induction n rule: show_nat.induct)
  case (1 n)
  show ?case
  proof (cases "n < 10")
    case True
    then show ?thesis by (simp add: show_nat.simps[of n] read_nat_def digit_val_digit_char)
  next
    case False
    then show ?thesis using 1 
      by (simp add: show_nat.simps[of n] read_nat_snoc digit_val_digit_char)
  qed
qed

lemma show_nat_digits: "list_all is_digit (show_nat n)"
proof (induction n rule: show_nat.induct)
  case (1 n)
  show ?case
  proof (cases "n < 10")
    case True
    then show ?thesis by (simp add: show_nat.simps[of n] is_digit_digit_char)
  next
    case False
    then show ?thesis using 1 
      by (simp add: show_nat.simps[of n] is_digit_digit_char)
  qed
qed

lemma show_nat_nonempty: "show_nat n \<noteq> []"
  by (subst show_nat.simps) simp

lemma strip_none:
  assumes "s \<noteq> []" and "\<And>w. w \<in> set ws \<Longrightarrow> w \<noteq> [] \<Longrightarrow> hd w \<noteq> hd s"
  shows "strip ws s = s"
proof -
  have "\<not> (w \<noteq> [] \<and> take (length w) s = w)" if "w \<in> set ws" for w
  proof
    assume a: "w \<noteq> [] \<and> take (length w) s = w"
    then have "hd (take (length w) s) = hd s" using assms(1) by (cases s; cases w) auto
    with a assms(2)[OF that] show False by simp
  qed
  then have "find (\<lambda>w. w \<noteq> [] \<and> take (length w) s = w) ws = None"
    by (simp add: find_None_iff)
  then show ?thesis by (subst strip.simps) simp
qed

lemma white_space_heads:
  "w \<in> set white_space \<Longrightarrow> \<not> is_digit (hd w)" "w \<in> set (map rev white_space) \<Longrightarrow> \<not> is_digit (hd w)"
  by (auto simp: white_space_def is_digit_def)

lemma trim_digits: "ds \<noteq> [] \<Longrightarrow> list_all is_digit ds \<Longrightarrow> trim ds = ds"
proof -
  assume ne: "ds \<noteq> []" and dg: "list_all is_digit ds"
  have h: "is_digit (hd ds)" using ne dg by (cases ds) auto
  have "last ds \<in> set ds" using ne by simp
  then have l: "is_digit (hd (rev ds))" using ne dg by (simp add: hd_rev list_all_iff)
  have 1: "strip white_space ds = ds"
    using strip_none[OF ne, of white_space] white_space_heads(1) h by metis
  have "rev ds \<noteq> []" using ne by simp
  from strip_none[OF this, of "map rev white_space"]
  have 2: "strip (map rev white_space) (rev ds) = rev ds"
    using white_space_heads(2) l by metis
  show ?thesis by (simp add: trim_def 1 2)
qed

lemma read_nat_zero: "read_nat (CHR ''0'' # ds) = read_nat ds"
  by (simp add: read_nat_def digit_val_def)

lemma read_nat_leading: "read_nat (dropWhile (\<lambda>c. c = CHR ''0'') ds) = read_nat ds"
  by (induction ds) (simp_all add: read_nat_zero)

lemma read_nat_trailing: "read_nat (ds @ replicate k (CHR ''0'')) = read_nat ds * 10 ^ k"
proof (induction k)
  case 0
  show ?case by simp
next
  case (Suc k)
  have "ds @ replicate (Suc k) (CHR ''0'') = (ds @ replicate k (CHR ''0'')) @ [CHR ''0'']"
    by (simp add: replicate_append_same)
  then show ?case using Suc by (simp only: read_nat_snoc) (simp add: digit_val_def)
qed

lemma takeWhile_replicate:
  "takeWhile (\<lambda>x. x = c) xs = replicate (length (takeWhile (\<lambda>x. x = c) xs)) c"
  by (induction xs) auto

lemma significant_pad:
  "significant ds @ replicate (length ds - length (significant ds)) (CHR ''0'') = ds"
proof -
  let ?P = "\<lambda>c. c = CHR ''0''"
  let ?t = "takeWhile ?P (rev ds)" and ?d = "dropWhile ?P (rev ds)"
  have "length ?t + length ?d = length (rev ds)" by (simp flip: length_append)
  then have l: "length ds - length (significant ds) = length ?t" by (simp add: significant_def)
  have "rev (?t @ ?d) = ds" by simp
  then have "rev ?d @ rev ?t = ds" by (simp only: rev_append)
  moreover have "rev ?t = replicate (length ?t) (CHR ''0'')"
    by (subst takeWhile_replicate) (simp only: rev_replicate length_replicate)
  ultimately show ?thesis using l by (simp add: significant_def)
qed

text \<open>A numeral without point and exponent denotes the integer its digits give.\<close>

lemma decimal_digits: "decimal neg ds 0 = Fin ((if neg then - 1 else 1) * int (read_nat ds))"
proof -
  let ?ds1 = "dropWhile (\<lambda>c. c = CHR ''0'') ds"
  let ?ds2 = "significant ?ds1"
  let ?k = "length ?ds1 - length ?ds2"
  have le: "length ?ds2 \<le> length ?ds1"
    using length_dropWhile_le[of "\<lambda>c. c = CHR ''0''" "rev ?ds1"] by (simp add: significant_def)
  have "read_nat ?ds1 = read_nat ?ds2 * 10 ^ ?k"
    using read_nat_trailing[of ?ds2 ?k] significant_pad[of ?ds1] by simp
  then have v: "read_nat ds = read_nat ?ds2 * 10 ^ ?k" by (simp add: read_nat_leading)
  have x: "0 + int (length ?ds1) - int (length ?ds2) = int ?k" using le by simp
  show ?thesis
  proof (cases "?ds2 = []")
    case True
    then have "read_nat ds = 0" using v by (simp add: read_nat_def)
    then show ?thesis using True by (simp add: decimal_def Let_def)
  next
    case False
    then show ?thesis unfolding decimal_def Let_def x using v by simp
  qed
qed

lemma unsigned_decimal_digits:
  assumes "ds \<noteq> []" and "list_all is_digit ds"
  shows "unsigned_decimal neg ds = Fin ((if neg then - 1 else 1) * int (read_nat ds))"
proof -
  have "is_digit (hd ds)" using assms by (cases ds) auto
  then have "hd ds \<noteq> CHR ''I''" by (auto simp: is_digit_def)
  then have i: "ds \<noteq> ''Infinity''" by auto
  have t: "takeWhile is_digit ds = ds" "dropWhile is_digit ds = []"
    using assms(2) by (simp_all add: list_all_iff)
  show ?thesis using assms(1) i
    by (simp add: unsigned_decimal_def t Let_def exponent_part_def decimal_digits)
qed

lemma str_to_num_digits:
  assumes "ds \<noteq> []" and "list_all is_digit ds"
  shows "str_to_num ds = Fin (int (read_nat ds))"
proof -
  obtain d t where ds: "ds = d # t" using assms(1) by (cases ds) auto
  have nd: "\<not> is_digit c" if "c \<in> {CHR ''x'', CHR ''X'', CHR ''o'', CHR ''O'', CHR ''b'', CHR ''B'', CHR ''+'', CHR ''-''}" for c
    using that by (auto simp: is_digit_def)
  have d: "hd ds \<noteq> CHR ''+''" "hd ds \<noteq> CHR ''-''" using assms(2) nd by (auto simp: ds)
  have p: "take 2 ds \<noteq> [CHR ''0'', c]" if "c \<in> {CHR ''x'', CHR ''X'', CHR ''o'', CHR ''O'', CHR ''b'', CHR ''B''}" for c
  proof
    assume "take 2 ds = [CHR ''0'', c]"
    then have "c \<in> set (take 2 ds)" by simp
    then have "c \<in> set ds" by (rule in_set_takeD)
    then have "is_digit c" using assms(2) by (simp add: list_all_iff)
    with nd[of c] that show False by blast
  qed
  have q: "take 2 ds \<noteq> ''0x''" "take 2 ds \<noteq> ''0X''" "take 2 ds \<noteq> ''0o''" "take 2 ds \<noteq> ''0O''"
    "take 2 ds \<noteq> ''0b''" "take 2 ds \<noteq> ''0B''"
    using p by simp_all
  show ?thesis
    unfolding str_to_num_def trim_digits[OF assms] Let_def
    using assms(1) q d unsigned_decimal_digits[OF assms, of False] by simp
qed

lemma str_to_num_show_nat: "str_to_num (show_nat n) = Fin (int n)"
  using str_to_num_digits[OF show_nat_nonempty[of n] show_nat_digits[of n]]
  by (simp add: read_show_nat)

lemma takeWhile_digits: "list_all is_digit ds \<Longrightarrow> takeWhile is_digit (ds @ CHR ''/'' # r) = ds"
  by (induction ds) (auto simp: is_digit_def)

lemma dropWhile_digits: "list_all is_digit ds \<Longrightarrow> dropWhile is_digit (ds @ CHR ''/'' # r) = CHR ''/'' # r"
  by (induction ds) (auto simp: is_digit_def)

lemma match_set_topic_own:
  "match_set_topic p (p @ ''/'' @ show_nat n @ ''/set'') = Some (show_nat n)"
  using show_nat_nonempty[of n] show_nat_digits[of n]
  by (simp add: match_set_topic_def takeWhile_digits dropWhile_digits)

lemma match_here1_own: "match_here1 (''home/gpio/'' @ show_nat n @ ''/set'') = Some (show_nat n)"
  using show_nat_nonempty[of n] show_nat_digits[of n]
  by (simp add: match_here1_def takeWhile_digits dropWhile_digits)

lemma find_set_topic1_own: "find_set_topic1 (''home/gpio/'' @ show_nat n @ ''/set'') = Some (show_nat n)"
  using match_here1_own[of n] by simp

lemma get_prop_total: "get_prop m k = Inr x \<Longrightarrow> \<exists>y. get_prop m k' = Inr y"
  by (cases m) (auto split: option.splits)

section \<open>Requests for pins that are not outputs\<close>

text \<open>
  Claim C2. A set request for a pin number that is not in the registry, or whose entry is
  not an output, changes nothing and reports nothing: the handler returns the state it
  was given, so no adapter was written, \<open>savedState\<close> and the files are as before and
  nothing was emitted or published. This holds for \<open>setPin\<close> and the MQTT handler of the
  second variant and for \<open>toggle\<close> and the MQTT handler of the first.
\<close>

theorem non_output_request_is_noop:
  "(get_prop msg ''number'' = Inr num \<and> \<not> is_output s (to_number num) \<longrightarrow> setPin s msg = (None, s)) \<and>
   (\<not> is_output s (Fin (int n)) \<longrightarrow>
      on_message s (MQTT_PREFIX s @ ''/'' @ show_nat n @ ''/set'') payload = (None, s)) \<and>
   (\<not> is_output1 t (to_string pin) \<longrightarrow> toggle t pin = (None, t)) \<and>
   (\<not> is_output1 t (show_nat n) \<longrightarrow>
      on_message1 t (''home/gpio/'' @ show_nat n @ ''/set'') message = (None, t))"
proof (intro conjI impI)
  assume a: "get_prop msg ''number'' = Inr num \<and> \<not> is_output s (to_number num)"
  then obtain val where v: "get_prop msg ''value'' = Inr val"
    using get_prop_total by blast
  show "setPin s msg = (None, s)"
    using a v by (auto simp: setPin_def is_output_def split: option.splits)
next
  assume "\<not> is_output s (Fin (int n))"
  then show "on_message s (MQTT_PREFIX s @ ''/'' @ show_nat n @ ''/set'') payload = (None, s)"
    using match_set_topic_own[of "MQTT_PREFIX s" n]
    by (auto simp: on_message_def str_to_num_show_nat is_output_def Let_def
        split: option.splits)
next
  assume "\<not> is_output1 t (to_string pin)"
  then show "toggle t pin = (None, t)"
    by (auto simp: toggle_def is_output1_def split: option.splits)
next
  assume "\<not> is_output1 t (show_nat n)"
  then show "on_message1 t (''home/gpio/'' @ show_nat n @ ''/set'') message = (None, t)"
    using find_set_topic1_own[of n]
    by (auto simp: on_message1_def is_output1_def split: option.splits)
qed

theorem non_output_request_is_noop_witness:
  "setPin demo (Obj [(''number'', Num (Fin 22)), (''value'', Num (Fin 1))]) = (None, demo) \<and>
   on_message demo ''home/gpio/5/set'' ''ON'' = (None, demo) \<and>
   toggle demo1 (Num (Fin 22)) = (None, demo1) \<and>
   on_message1 demo1 ''home/gpio/5/set'' ''ON'' = (None, demo1)"
proof -
  have 1: "get_prop (Obj [(''number'', Num (Fin 22)), (''value'', Num (Fin 1))]) ''number'' = Inr (Num (Fin 22))
           \<and> \<not> is_output demo (to_number (Num (Fin 22)))"
    by (simp add: is_output_def demo_def)
  have 2: "\<not> is_output demo (Fin (int 5))" by (simp add: is_output_def demo_def)
  have 3: "\<not> is_output1 demo1 (to_string (Num (Fin 22)))"
    by (simp add: is_output1_def demo1_def magnitude_def show_nat.simps digit_char_def)
  have 4: "\<not> is_output1 demo1 (show_nat 5)"
    by (simp add: is_output1_def demo1_def magnitude_def show_nat.simps digit_char_def)
  have 5: "MQTT_PREFIX demo @ ''/'' @ show_nat 5 @ ''/set'' = ''home/gpio/5/set''"
    by (simp add: demo_def magnitude_def show_nat.simps digit_char_def)
  have 6: "''home/gpio/'' @ show_nat 5 @ ''/set'' = ''home/gpio/5/set''"
    by (simp add: magnitude_def show_nat.simps digit_char_def)
  from non_output_request_is_noop
    [of "Obj [(''number'', Num (Fin 22)), (''value'', Num (Fin 1))]" "Num (Fin 22)" demo 5 "''ON''" demo1
        "Num (Fin 22)" "''ON''"]
    1 2 3 4 show ?thesis unfolding 5 6 by blast
qed

section \<open>The MQTT payload rule\<close>

lemma upper_char_O: "upper_char c = CHR ''O'' \<longleftrightarrow> c = CHR ''O'' \<or> c = CHR ''o''"
  by (auto simp: upper_char_def split: if_splits)

lemma upper_char_N: "upper_char c = CHR ''N'' \<longleftrightarrow> c = CHR ''N'' \<or> c = CHR ''n''"
  by (auto simp: upper_char_def split: if_splits)

lemma upper_char_1: "upper_char c = CHR ''1'' \<longleftrightarrow> c = CHR ''1''"
  by (auto simp: upper_char_def split: if_splits)

lemma toUpperCase_ON: "toUpperCase t = ''ON'' \<longleftrightarrow> t \<in> {''ON'', ''On'', ''oN'', ''on''}"
  by (auto simp: toUpperCase_def map_eq_Cons_conv upper_char_O upper_char_N)

lemma toUpperCase_1: "toUpperCase t = ''1'' \<longleftrightarrow> t = ''1''"
  by (auto simp: toUpperCase_def map_eq_Cons_conv upper_char_1)

text \<open>
  Claim C3, as amended. In the second variant the rule of the specification is applied to
  the payload with its surrounding white space removed: a payload that, once trimmed, equals
  \<open>ON\<close> in any letter case or equals \<open>1\<close> gives 1, any other gives 0. In the first
  variant only the exact payload \<open>ON\<close> gives 1.
\<close>

theorem payload_rule_after_trim:
  "payload_value p = payload_spec (trim p) \<and> (payload_value1 p = Fin 1 \<longleftrightarrow> p = ''ON'') \<and>
   (payload_value1 p = Fin 0 \<longleftrightarrow> p \<noteq> ''ON'')"
  unfolding payload_value_def payload_spec_def payload_value1_def Let_def
  using toUpperCase_ON[of "trim p"] toUpperCase_1[of "trim p"] by auto

text \<open>
  Claim C3 as stated fails: the payload \<open>ON\<close> preceded by a space is not equal to \<open>ON\<close>
  in any letter case, nor to \<open>1\<close>, yet the second variant maps it to 1; and the first
  variant maps the payloads \<open>on\<close> and \<open>1\<close> to 0.
\<close>

theorem padded_payload_counterexample:
  "payload_spec '' ON'' = Fin 0 \<and> payload_value '' ON'' = Fin 1 \<and>
   payload_spec ''on'' = Fin 1 \<and> payload_value1 ''on'' = Fin 0 \<and>
   payload_spec ''1'' = Fin 1 \<and> payload_value1 ''1'' = Fin 0"
  by (simp add: payload_value_def payload_spec_def payload_value1_def js_defs)

section \<open>Loading the documents\<close>

text \<open>
  The second variant reads both documents through \<open>readJsonSafe\<close>: a missing file or a
  text that does not parse gives the empty topology and the empty mapping, and no exception.
\<close>

lemma second_variant_loads_fall_back:
  "(read_json s CONFIG_FILE = Inl err \<longrightarrow> config (load_config s) = Obj [(''pins'', Arr [])]) \<and>
   (read_json s STATE_FILE = Inl err \<longrightarrow> savedState (load_state s) = Obj [])"
  by (simp add: load_config_def load_state_def readJsonSafe_def)

text \<open>The first variant falls back for the state document, once the configuration has loaded.\<close>

lemma first_variant_state_load_falls_back:
  "read_json s CONFIG_FILE = Inr c \<Longrightarrow> read_json s STATE_FILE = Inl err \<Longrightarrow>
   \<exists>s'. startup1 s = Inr s' \<and> savedState s' = Obj []"
  by (simp add: startup1_def)

text \<open>
  Claim C4 fails in the first variant: its configuration load is outside any \<open>try\<close>, so
  on a disk without the configuration file, or with one that does not parse, module start
  ends with the exception instead of an empty topology.
\<close>

theorem first_variant_config_load_throws:
  "startup1 (s\<lparr>files := []\<rparr>) = Inl IOError \<and>
   startup1 (s\<lparr>files := [(CONFIG_FILE, Garbage)]\<rparr>) = Inl SyntaxError"
  by (simp add: startup1_def read_json_def)

section \<open>Replacing the configuration\<close>

text \<open>
  Claim C6. A posted document whose \<open>pins\<close> member is missing or is not an array is
  answered with an error, and the state is the one before the request: the configuration
  in memory, the registry and the files are untouched. Both variants.
\<close>

theorem bad_pins_rejected:
  assumes "\<And>ps. get_prop body ''pins'' \<noteq> Inr (Arr ps)"
  shows "is_error (fst (post_config s body)) \<and> snd (post_config s body) = s \<and>
         is_error (fst (post_config1 t body)) \<and> snd (post_config1 t body) = t"
proof -
  have 2: "is_error (fst (post_config s body)) \<and> snd (post_config s body) = s"
    using assms by (auto simp: post_config_def is_error_def split: sum.splits jsval.splits)
  have 1: "is_error (fst (post_config1 t body)) \<and> snd (post_config1 t body) = t"
    using assms by (auto simp: post_config1_def is_error_def split: sum.splits jsval.splits)
  show ?thesis using 1 2 by simp
qed

theorem bad_pins_rejected_witness:
  "is_error (fst (post_config demo (Obj [(''pins'', Str ''17'')]))) \<and>
   snd (post_config demo (Obj [(''pins'', Str ''17'')])) = demo \<and>
   is_error (fst (post_config1 demo1 (Obj [(''pins'', Str ''17'')]))) \<and>
   snd (post_config1 demo1 (Obj [(''pins'', Str ''17'')])) = demo1"
proof -
  have "\<And>ps. get_prop (Obj [(''pins'', Str ''17'')]) ''pins'' \<noteq> Inr (Arr ps)" by simp
  from bad_pins_rejected[OF this] show ?thesis .
qed

section \<open>Requests for output pins\<close>


lemma json_val_bit: "json_val (Num (bit_of v)) = Some (Num (bit_of v))"
  by (simp add: bit_of_def)

lemma registry_entry:
  "registry_ok s \<Longrightarrow> map_of (pins s) k = Some e \<Longrightarrow>
   number (meta e) = k \<and> gnumber (gpio e) = Num k \<and> (direction (meta e) = ''out'' \<longrightarrow> watchers (gpio e) = [])"
proof -
  assume r: "registry_ok s" and m: "map_of (pins s) k = Some e"
  from m have "(k, e) \<in> set (pins s)" by (rule map_of_SomeD)
  with r have "entry_ok (k, e)" by (auto simp: registry_ok_def list_all_iff)
  then show ?thesis by (simp add: entry_ok_def)
qed

















section \<open>Repeating a request\<close>

lemma list_all_update: "P (k, v) \<Longrightarrow> list_all P ps \<Longrightarrow> list_all P (AList.update k v ps)"
  by (induction ps) auto






section \<open>The snapshot\<close>


























section \<open>Saving and loading a document\<close>

lemma concat_singletons: "(\<And>x. x \<in> set xs \<Longrightarrow> f x = [x]) \<Longrightarrow> concat (map f xs) = xs"
  by (induction xs) auto

lemma json_clean_val: "json_clean d \<Longrightarrow> json_val d = Some d"
proof (induction d rule: json_val.induct)
  case (9 xs)
  then have "\<And>x. x \<in> set xs \<Longrightarrow> json_val x = Some x" by (simp add: list_all_iff)
  then have "map (\<lambda>x. case json_val x of None \<Rightarrow> Null | Some y \<Rightarrow> y) xs = xs"
    by (simp add: map_idI)
  then show ?case by simp
next
  case (10 kvs)
  then have "\<And>kv. kv \<in> set kvs \<Longrightarrow> json_val (snd kv) = Some (snd kv)" by (simp add: list_all_iff)
  then have "concat (map (\<lambda>kv. case json_val (snd kv) of None \<Rightarrow> [] | Some y \<Rightarrow> [(fst kv, y)]) kvs) = kvs"
    by (intro concat_singletons) simp
  then show ?case by simp
qed simp_all

lemma wf_documents_clean:
  "(wf_config c \<longrightarrow> json_clean c) \<and> (wf_state st \<longrightarrow> json_clean st)"
  by (auto simp: wf_config_def wf_state_def list_all_iff split: jsval.splits)

lemma json_clean_update:
  "list_all (\<lambda>kv. json_clean (snd kv)) kvs \<Longrightarrow> json_clean x \<Longrightarrow>
   list_all (\<lambda>kv. json_clean (snd kv)) (AList.update k x kvs)"
  by (induction kvs) auto

lemma wf_examples: "wf_config readme_config \<and> wf_config led_config \<and> wf_state (Obj [(''17'', Num (Fin 1))])"
  by (simp add: wf_config_def wf_pin_def wf_state_def is_object_def ex_defs)

text \<open>
  Claim C8. A document of JSON values, which every well-formed configuration and every
  well-formed state mapping is, comes back equal from \<open>readJsonSafe\<close> after
  \<open>writeJsonSafe\<close> wrote it to a writable file: into \<open>config\<close> for the configuration
  file, into \<open>savedState\<close> for the state file. In the first variant the state document
  that \<open>saveState\<close> writes is the one a later read parses.
\<close>

theorem save_then_load:
  "(json_clean c \<and> CONFIG_FILE \<notin> set (readonly s) \<longrightarrow>
      fst (writeJsonSafe s CONFIG_FILE c) = None \<and>
      config (load_config (snd (writeJsonSafe s CONFIG_FILE c))) = c) \<and>
   (json_clean st \<and> STATE_FILE \<notin> set (readonly s) \<longrightarrow>
      fst (writeJsonSafe s STATE_FILE st) = None \<and>
      savedState (load_state (snd (writeJsonSafe s STATE_FILE st))) = st) \<and>
   (json_clean (savedState t) \<and> is_object (savedState t) \<and> json_clean v \<and>
    STATE_FILE \<notin> set (readonly t) \<longrightarrow>
      fst (saveState t pin v) = None \<and>
      read_json (snd (saveState t pin v)) STATE_FILE = Inr (savedState (snd (saveState t pin v))))"
proof (intro conjI impI)
  assume a: "json_clean c \<and> CONFIG_FILE \<notin> set (readonly s)"
  then have j: "json_val c = Some c" using json_clean_val by blast
  show "fst (writeJsonSafe s CONFIG_FILE c) = None" using a j
    by (simp add: writeJsonSafe_def writeFileSync_def)
  show "config (load_config (snd (writeJsonSafe s CONFIG_FILE c))) = c" using a j
    by (simp add: writeJsonSafe_def writeFileSync_def load_config_def readJsonSafe_def read_json_def
        update_conv')
next
  assume a: "json_clean st \<and> STATE_FILE \<notin> set (readonly s)"
  then have j: "json_val st = Some st" using json_clean_val by blast
  show "fst (writeJsonSafe s STATE_FILE st) = None" using a j
    by (simp add: writeJsonSafe_def writeFileSync_def)
  show "savedState (load_state (snd (writeJsonSafe s STATE_FILE st))) = st" using a j
    by (simp add: writeJsonSafe_def writeFileSync_def load_state_def readJsonSafe_def read_json_def
        update_conv')
next
  assume a: "json_clean (savedState t) \<and> is_object (savedState t) \<and> json_clean v \<and>
    STATE_FILE \<notin> set (readonly t)"
  then obtain kvs where k: "savedState t = Obj kvs" by (auto simp: is_object_def split: jsval.splits)
  have "json_clean (Obj (AList.update pin v kvs))" using a k by (simp add: json_clean_update)
  then have j: "json_val (Obj (AList.update pin v kvs)) = Some (Obj (AList.update pin v kvs))"
    by (rule json_clean_val)
  show "fst (saveState t pin v) = None" using a k j
    by (simp add: saveState_def writeFileSync_def del: json_val.simps)
  show "read_json (snd (saveState t pin v)) STATE_FILE = Inr (savedState (snd (saveState t pin v)))"
    using a k j
    by (simp add: saveState_def writeFileSync_def read_json_def update_conv' del: json_val.simps)
qed

theorem save_then_load_witness:
  "config (load_config (snd (writeJsonSafe demo CONFIG_FILE readme_config))) = readme_config \<and>
   savedState (load_state (snd (writeJsonSafe demo STATE_FILE (Obj [(''17'', Num (Fin 1))])))) =
     Obj [(''17'', Num (Fin 1))] \<and>
   read_json (snd (saveState demo1 ''17'' (Num (Fin 1)))) STATE_FILE = Inr (Obj [(''17'', Num (Fin 1))])"
proof -
  have 1: "json_clean readme_config \<and> CONFIG_FILE \<notin> set (readonly demo)"
    by (simp add: ex_defs demo_def)
  have 2: "json_clean (Obj [(''17'', Num (Fin 1))]) \<and> STATE_FILE \<notin> set (readonly demo)"
    by (simp add: demo_def)
  have 3: "json_clean (savedState demo1) \<and> is_object (savedState demo1) \<and> json_clean (Num (Fin 1)) \<and>
    STATE_FILE \<notin> set (readonly demo1)"
    by (simp add: demo1_def is_object_def)
  have 4: "savedState (snd (saveState demo1 ''17'' (Num (Fin 1)))) = Obj [(''17'', Num (Fin 1))]"
    by (simp add: saveState_def writeFileSync_def demo1_def)
  from save_then_load[of readme_config demo "Obj [(''17'', Num (Fin 1))]" demo1 "Num (Fin 1)" "''17''"]
    1 2 3 show ?thesis unfolding 4[symmetric] by blast
qed

section \<open>Toggling twice (first variant)\<close>






section \<open>Registry rebuild\<close>


























section \<open>The registry invariant and the concrete runs\<close>

text \<open>
  The theorems about the second variant assume \<open>registry_ok\<close>. It holds of every state
  the server reaches: of the state after any \<open>setupPins\<close>, and after each handler when it
  held before.
\<close>

lemma registry_ok_pins: "pins t = pins s \<Longrightarrow> registry_ok t = registry_ok s"
  by (simp add: registry_ok_def)

lemma publishMqtt_pins [simp]: "pins (publishMqtt s n v) = pins s"
  by (simp add: publishMqtt_def)

lemma subscribe_pins [simp]: "pins (subscribeMqttForPin s n) = pins s"
  by (simp add: subscribeMqttForPin_def)

lemma watch_callback_pins [simp]: "pins (watch_callback s w v) = pins s"
  by (simp add: watch_callback_def)

lemma fold_callbacks_pins: "pins (fold (\<lambda>w t. watch_callback t w v) ws s) = pins s"
  by (induction ws arbitrary: s) simp_all

lemma registry_ok_update:
  "registry_ok s \<Longrightarrow> entry_ok (k, e) \<Longrightarrow> pins t = AList.update k e (pins s) \<Longrightarrow> registry_ok t"
  by (simp add: registry_ok_def distinct_update list_all_update)

lemma writeSync_registry: "registry_ok s \<Longrightarrow> registry_ok (snd (writeSync s k v))"
proof (cases "map_of (pins s) k")
  case None
  assume "registry_ok s"
  with None show ?thesis by (simp add: writeSync_def)
next
  case (Some e)
  assume r: "registry_ok s"
  from registry_entry[OF r Some]
  have ok: "entry_ok (k, e\<lparr>gpio := (gpio e)\<lparr>gvalue := to_number v\<rparr>\<rparr>)" by (simp add: entry_ok_def)
  show ?thesis
  proof (cases "use_mock s")
    case True
    then have "pins (snd (writeSync s k v)) =
        AList.update k (e\<lparr>gpio := (gpio e)\<lparr>gvalue := to_number v\<rparr>\<rparr>) (pins s)"
      using Some by (simp add: writeSync_def fold_callbacks_pins)
    from registry_ok_update[OF r ok this] show ?thesis .
  next
    case False
    show ?thesis
    proof (cases "hw_write s (gpio e) v")
      case (Inl err)
      then show ?thesis using Some False r by (simp add: writeSync_def)
    next
      case (Inr g)
      then have g: "g = (gpio e)\<lparr>gvalue := to_number v\<rparr>" by (auto simp: hw_write_def split: if_splits)
      have "pins (snd (writeSync s k v)) =
        AList.update k (e\<lparr>gpio := (gpio e)\<lparr>gvalue := to_number v\<rparr>\<rparr>) (pins s)"
        using Some False Inr g by (simp add: writeSync_def)
      from registry_ok_update[OF r ok this] show ?thesis .
    qed
  qed
qed

lemma new_Gpio_shape:
  "new_Gpio s n d = Inr g \<Longrightarrow> g = \<lparr>gnumber = n, gdirection = d, gvalue = Fin 0, watchers = []\<rparr>"
  by (auto simp: new_Gpio_def hw_new_def split: if_splits)

lemma setup_pin_registry: "registry_ok s \<Longrightarrow> registry_ok (snd (setup_pin s p))"
proof -
  assume r: "registry_ok s"
  have core: "registry_ok (snd (
      case new_Gpio s (Num n) (Str dir) of
        Inl err \<Rightarrow> (Some err, s)
      | Inr g \<Rightarrow>
          let s1 = s\<lparr>pins := AList.update n
                     \<lparr>gpio = g, meta = \<lparr>number = n, direction = dir, label = lab\<rparr>\<rparr> (pins s)\<rparr>
          in
          if dir = ''out'' then
            (case get_prop (savedState s1) (num_to_string n) of
               Inl err \<Rightarrow> (Some err, s1)
             | Inr sv \<Rightarrow>
                 let initial = bit_of (nullish sv (Num (Fin 0)));
                     s2 = snd (writeSync s1 n (Num initial));
                     s3 = publishMqtt s2 n (Num initial)
                 in (None, subscribeMqttForPin s3 n))
          else (None, subscribeMqttForPin (watch s1 n (Num n)) n)))" for n dir lab
  proof (cases "new_Gpio s (Num n) (Str dir)")
    case (Inl err)
    then show ?thesis using r by simp
  next
    case (Inr g)
    note g = new_Gpio_shape[OF Inr]
    let ?E = "\<lparr>gpio = g, meta = \<lparr>number = n, direction = dir, label = lab\<rparr>\<rparr>"
    let ?s1 = "s\<lparr>pins := AList.update n ?E (pins s)\<rparr>"
    have "entry_ok (n, ?E)" using g by (simp add: entry_ok_def)
    from registry_ok_update[OF r this, of ?s1] have r1: "registry_ok ?s1" by simp
    show ?thesis
    proof (cases "dir = ''out''")
      case True
      show ?thesis
      proof (cases "get_prop (savedState ?s1) (num_to_string n)")
        case (Inl err)
        then show ?thesis using Inr True r1 by (simp add: Let_def del: num_to_string.simps)
      next
        case sv: (Inr sv)
        have "registry_ok (snd (writeSync ?s1 n (Num (bit_of (nullish sv (Num (Fin 0)))))))"
          using writeSync_registry[OF r1] .
        then have "registry_ok (subscribeMqttForPin (publishMqtt
            (snd (writeSync ?s1 n (Num (bit_of (nullish sv (Num (Fin 0))))))) n
            (Num (bit_of (nullish sv (Num (Fin 0)))))) n)"
          by (simp add: registry_ok_def)
        then show ?thesis using Inr True sv by (simp add: Let_def del: num_to_string.simps)
      qed
    next
      case False
      have "entry_ok (n, ?E\<lparr>gpio := g\<lparr>watchers := watchers g @ [Num n]\<rparr>\<rparr>)"
        using g False by (simp add: entry_ok_def)
      from registry_ok_update[OF r this, of "subscribeMqttForPin (watch ?s1 n (Num n)) n"]
      have "registry_ok (subscribeMqttForPin (watch ?s1 n (Num n)) n)"
        by (simp add: watch_def update_conv')
      then show ?thesis using Inr False by (simp add: Let_def del: num_to_string.simps)
    qed
  qed
  show ?thesis
    unfolding setup_pin_def
    using r core by (simp add: Let_def split: sum.splits jsval.splits del: num_to_string.simps)
qed

lemma setup_loop_registry: "registry_ok s \<Longrightarrow> registry_ok (snd (setup_loop s ps))"
proof (induction ps arbitrary: s)
  case Nil
  then show ?case by simp
next
  case (Cons p ps)
  obtain r s' where r: "setup_pin s p = (r, s')" by (cases "setup_pin s p")
  with setup_pin_registry[OF Cons.prems, of p] have "registry_ok s'" by simp
  then show ?case using r Cons.IH[of s'] by (cases r) simp_all
qed

lemma broadcast_pins: "pins (snd (broadcastFullState s)) = pins s"
  by (simp add: broadcastFullState_def split: sum.splits)

text \<open>
  Whatever the configuration and the state, and whether or not it ends with an exception,
  \<open>setupPins\<close> leaves a registry that satisfies the invariant; the two set handlers and
  the configuration handler keep it.
\<close>

lemma setupPins_registry: "registry_ok (snd (setupPins s))"
proof -
  have r0: "registry_ok (s\<lparr>pins := []\<rparr>)" by (simp add: registry_ok_def)
  show ?thesis
  proof (cases "pin_list (config s)")
    case (Inl err)
    then show ?thesis using r0 by (simp add: setupPins_def)
  next
    case (Inr ps)
    obtain r s1 where l: "setup_loop (s\<lparr>pins := []\<rparr>) ps = (r, s1)"
      by (cases "setup_loop (s\<lparr>pins := []\<rparr>) ps")
    with setup_loop_registry[OF r0, of ps] have r1: "registry_ok s1" by simp
    then have "registry_ok (snd (broadcastFullState s1))"
      using registry_ok_pins[OF broadcast_pins] by blast
    then show ?thesis using Inr l r1 by (cases r) (simp_all add: setupPins_def)
  qed
qed

lemma apply_output_registry: "registry_ok s \<Longrightarrow> registry_ok (snd (apply_output s k n v))"
proof -
  assume "registry_ok s"
  from writeSync_registry[OF this, of k "Num v"]
  show ?thesis
    by (auto simp: apply_output_def Let_def registry_ok_def writeJsonSafe_def writeFileSync_def
        split: sum.splits option.splits)
qed

lemma handlers_keep_registry:
  assumes "registry_ok s"
  shows "registry_ok (snd (setPin s msg))" and "registry_ok (snd (on_message s topic payload))"
    and "registry_ok (snd (post_config s body))"
proof -
  show "registry_ok (snd (setPin s msg))"
    using assms apply_output_registry[OF assms]
    by (simp add: setPin_def split: sum.splits option.splits)
  show "registry_ok (snd (on_message s topic payload))"
    using assms apply_output_registry[OF assms]
    by (simp add: on_message_def Let_def split: option.splits)
  have a: "registry_ok (s\<lparr>config := c\<rparr>)" for c using assms by (simp add: registry_ok_def)
  have b: "setupPins t = (r, u) \<Longrightarrow> registry_ok u" for t r u
    using setupPins_registry[of t] by simp
  show "registry_ok (snd (post_config s body))"
    using assms a b
    by (auto simp: post_config_def Let_def writeJsonSafe_def writeFileSync_def
        split: sum.splits jsval.splits option.splits prod.splits if_splits)
qed

text \<open>The states used as concrete inputs are the ones the two variants start into.\<close>

lemma demo_reached: "start2 (boot [(''gpio-config.json'', Json readme_config)] True True) = (None, demo)"
  by (simp add: start2_def load_config_def load_state_def readJsonSafe_def read_json_def
      setupPins_def pin_list_def setup_pin_def new_Gpio_def writeSync_def watch_def publishMqtt_def
      subscribeMqttForPin_def broadcastFullState_def getCurrentState_def readSync_def
      boot_def CONFIG_FILE_def STATE_FILE_def js_defs ex_defs demo_def Let_def)

lemma demo1_reached: "start1 (boot [(''gpio-config.json'', Json readme_config)] False True) = (None, demo1)"
  by (simp add: start1_def startup1_def read_json_def setupGpioPins_def setup_pin1_def
      hw_new_def hw_write_def boot_def CONFIG_FILE_def STATE_FILE_def js_defs ex_defs demo1_def Let_def)

end
